theory Spec2Isabelle
  imports Main "HOL-Library.Word"
begin

section \<open>Go values used by the FCD controller\<close>

text \<open>
  The controller of \<^verbatim>\<open>pkg/csi/service/fcd/controller.go\<close> is embedded function by
  function.  A Go method returning \<^verbatim>\<open>(*Response, error)\<close> becomes a function returning an
  \<open>outcome\<close>: the pair of the two results, each of which may be \<^verbatim>\<open>nil\<close>, or \<open>Panic\<close> where
  the Go run time aborts the call (a slice bound out of range, a nil dereference, a failed
  type assertion).
\<close>

datatype codes = OK | InvalidArgument | NotFound | AlreadyExists | Unimplemented | Internal

text \<open>
  A Go \<^verbatim>\<open>error\<close>: the sentinel \<^verbatim>\<open>vclib.ErrNoDiskIDFound\<close>, an error built by
  \<^verbatim>\<open>status.Errorf(code, msg)\<close>, or any other error of a collaborator.  The message of a
  status error is not modelled: no operation branches on it.
\<close>

datatype error = ErrNoDiskIDFound | StatusError codes | BackendError string

datatype 'r outcome = Return (returned: "'r option") (returned_err: "error option") | Panic

text \<open>Go's \<^verbatim>\<open>int\<close> and \<^verbatim>\<open>int64\<close> are 64-bit two's complement: arithmetic wraps.\<close>

definition wrap64 :: "int \<Rightarrow> int" where
  "wrap64 x = (x + 2 ^ 63) mod 2 ^ 64 - 2 ^ 63"

text \<open>Go's \<^verbatim>\<open>/\<close> on integers truncates towards zero.\<close>

definition go_quot :: "int \<Rightarrow> int \<Rightarrow> int" where
  "go_quot a b = sgn a * sgn b * (\<bar>a\<bar> div \<bar>b\<bar>)"

text \<open>Go's \<^verbatim>\<open>%\<close> is the remainder of that quotient: it has the sign of the dividend.\<close>

definition go_rem :: "int \<Rightarrow> int \<Rightarrow> int" where
  "go_rem a b = a - b * go_quot a b"

text \<open>
  A Go \<^verbatim>\<open>map[string]string\<close> read at a missing key (or a nil map read at any key) gives
  the empty string.
\<close>

definition lookup :: "(string \<rightharpoonup> string) \<Rightarrow> string \<Rightarrow> string" where
  "lookup m k = (case m k of None \<Rightarrow> [] | Some v \<Rightarrow> v)"

text \<open>
  The slice expressions \<^verbatim>\<open>xs[lo:]\<close> and \<^verbatim>\<open>xs[lo:hi]\<close> with run-time indices: Go panics
  unless \<open>0 \<le> lo \<le> hi\<close> and \<open>hi\<close> is within the slice (within its length for \<^verbatim>\<open>xs[lo:]\<close>;
  the one use of \<^verbatim>\<open>xs[lo:hi]\<close> has \<open>hi\<close> at most the length, so that the capacity plays
  no part).  \<open>None\<close> is the panic.
\<close>

definition slice_from :: "'a list \<Rightarrow> int \<Rightarrow> 'a list option" where
  "slice_from xs lo =
     (if 0 \<le> lo \<and> lo \<le> int (length xs) then Some (drop (nat lo) xs) else None)"

definition slice_range :: "'a list \<Rightarrow> int \<Rightarrow> int \<Rightarrow> 'a list option" where
  "slice_range xs lo hi =
     (if 0 \<le> lo \<and> lo \<le> hi \<and> hi \<le> int (length xs)
      then Some (take (nat hi - nat lo) (drop (nat lo) xs)) else None)"

subsection \<open>strconv\<close>

text \<open>
  \<^verbatim>\<open>strconv.Atoi\<close> and \<^verbatim>\<open>strconv.Itoa\<close> belong to Go's standard library, not to this
  repository.  \<^verbatim>\<open>Atoi\<close> accepts an optional sign followed by one or more decimal digits
  whose value fits 64 bits, and fails on everything else (\<open>None\<close> is the non-nil error).
\<close>

definition is_digit :: "char \<Rightarrow> bool" where
  "is_digit c = (48 \<le> (of_char c :: nat) \<and> (of_char c :: nat) \<le> 57)"

fun parse_digits :: "nat \<Rightarrow> string \<Rightarrow> nat option" where
  "parse_digits n [] = Some n"
| "parse_digits n (c # cs) =
     (if is_digit c then parse_digits (n * 10 + (of_char c - 48)) cs else None)"

definition Atoi :: "string \<Rightarrow> int option" where
  "Atoi s =
     (case s of
        [] \<Rightarrow> None
      | c # cs \<Rightarrow>
          (let ds = (if c = CHR ''-'' \<or> c = CHR ''+'' then cs else s) in
           if ds = [] then None
           else case parse_digits 0 ds of
                  None \<Rightarrow> None
                | Some n \<Rightarrow>
                    (let v = (if c = CHR ''-'' then - int n else int n) in
                     if - (2 ^ 63) \<le> v \<and> v < 2 ^ 63 then Some v else None)))"

fun utoa :: "nat \<Rightarrow> string" where
  "utoa n = (if n < 10 then [char_of (48 + n)] else utoa (n div 10) @ [char_of (48 + n mod 10)])"

declare utoa.simps [simp del]

definition Itoa :: "int \<Rightarrow> string" where
  "Itoa i = (if i < 0 then CHR ''-'' # utoa (nat (- i)) else utoa (nat i))"

section \<open>Data of the collaborators\<close>

text \<open>
  The constants of the package that are declared outside \<^verbatim>\<open>controller.go\<close> (the keys of
  the attribute maps, the topology labels, the two parent types of \<^verbatim>\<open>vclib\<close>) are taken
  as a parameter: the controller only compares and stores them.
\<close>

record constants =
  AttributeFirstClassDiskType :: string
  AttributeFirstClassDiskName :: string
  AttributeFirstClassDiskParentType :: string
  AttributeFirstClassDiskParentName :: string
  AttributeFirstClassDiskOwningDatastore :: string
  AttributeFirstClassDiskVcenter :: string
  AttributeFirstClassDiskDatacenter :: string
  AttributeFirstClassDiskPage83Data :: string
  AttributeFirstClassDiskZone :: string
  AttributeFirstClassDiskRegion :: string
  FirstClassDiskTypeString :: string
  LabelZoneRegion :: string
  LabelZoneFailureDomain :: string
  TypeDatastore :: string
  TypeDatastoreCluster :: string
  PVSCSIControllerType :: string

text \<open>
  Modelled from the spec: \<^verbatim>\<open>DefaultGbDiskSize\<close> is declared outside \<^verbatim>\<open>controller.go\<close>.
  The default capacity is ten gibibytes (the source's own comment reads "Default is 10 GiB").
\<close>

definition DefaultGbDiskSize :: int where
  "DefaultGbDiskSize = 10"

text \<open>
  Modelled from the spec: \<^verbatim>\<open>GbInBytes\<close> is declared outside \<^verbatim>\<open>controller.go\<close>.  It is
  the number of bytes of one gibibyte, the unit the requested size is rounded up to.
\<close>

definition GbInBytes :: int where
  "GbInBytes = 1024 * 1024 * 1024"

text \<open>
  Modelled from the spec: \<^verbatim>\<open>MbInBytes\<close> is declared outside \<^verbatim>\<open>controller.go\<close>.  It is
  the number of bytes of one megabyte of disk capacity, which the platform counts in binary
  megabytes (1024 of them to the gibibyte).
\<close>

definition MbInBytes :: int where
  "MbInBytes = 1024 * 1024"

text \<open>
  A \<^verbatim>\<open>*vclib.Datacenter\<close> as far as the controller reads it: its \<^verbatim>\<open>Name()\<close> and the host
  of the URL of its client.
\<close>

record Datacenter =
  dc_Name :: string
  dc_Host :: string

text \<open>
  The backing of a disk is an interface value; the controller asserts that it is a
  \<^verbatim>\<open>*types.BaseConfigInfoDiskFileBackingInfo\<close> and reads its file path.
\<close>

datatype BaseConfigInfoBackingInfo =
  BaseConfigInfoDiskFileBackingInfo (FilePath: string)
| BaseConfigInfoOtherBackingInfo

text \<open>
  A \<^verbatim>\<open>*vclib.FirstClassDisk\<close> as far as the controller reads it: \<^verbatim>\<open>Config.Id.Id\<close>,
  \<^verbatim>\<open>Config.Name\<close>, \<^verbatim>\<open>Config.CapacityInMB\<close> (an \<^verbatim>\<open>int64\<close>), \<^verbatim>\<open>Config.Backing\<close>,
  \<^verbatim>\<open>ParentType\<close> (a string type), \<^verbatim>\<open>StoragePodInfo.Summary.Name\<close>,
  \<^verbatim>\<open>DatastoreInfo.Info.Name\<close> and the datacenter.  The pointers inside a descriptor that
  the driver hands out are taken to be set.
\<close>

record FirstClassDisk =
  fcd_Datacenter :: Datacenter
  Config_Id :: string
  Config_Name :: string
  Config_CapacityInMB :: int
  Config_Backing :: BaseConfigInfoBackingInfo
  ParentType :: string
  StoragePodInfo_Summary_Name :: string
  DatastoreInfo_Info_Name :: string

record Volume =
  VolumeId :: string
  CapacityBytes :: int
  VolumeContext :: "string \<rightharpoonup> string"

record ListVolumesRequest =
  StartingToken :: string
  MaxEntries :: "32 word"

record ListVolumesResponse =
  Entries :: "Volume list"
  NextToken :: string

record ZoneDiscoveryInfo =
  zdi_VcServer :: string
  zdi_DataCenter :: Datacenter

record FcdDiscoveryInfo =
  fdi_VcServer :: string
  fdi_DataCenter :: Datacenter
  fdi_FCDInfo :: FirstClassDisk

record VolumeOptions =
  SCSIControllerType :: string

type_synonym VirtualMachine = string

datatype FindFCD = FindFCDByID | FindFCDByName

text \<open>\<^verbatim>\<open>c.cfg.Labels\<close>, the only part of the configuration the operations read.\<close>

record Config =
  Labels_Zone :: string
  Labels_Region :: string

subsection \<open>Requests and responses\<close>

text \<open>
  A \<^verbatim>\<open>csi.Topology\<close> is its segment map; the getter \<^verbatim>\<open>GetSegments\<close> of a nil topology
  gives a nil map, which reads like an empty one.  A Go slice or map that may be \<^verbatim>\<open>nil\<close>
  is an \<open>option\<close>: \<open>None\<close> is \<^verbatim>\<open>nil\<close>, \<open>Some []\<close> an empty slice that is not nil.
\<close>

type_synonym Topology = "string \<rightharpoonup> string"

record TopologyRequirement =
  Requisite :: "Topology list option"
  Preferred :: "Topology list option"

record CapacityRange =
  RequiredBytes :: "64 word"
  LimitBytes :: "64 word"

record CreateVolumeRequest =
  cv_Name :: string
  cv_Parameters :: "(string \<rightharpoonup> string) option"
  cv_CapacityRange :: "CapacityRange option"
  cv_AccessibilityRequirements :: "TopologyRequirement option"

record CreateVolumeResponse =
  cv_Volume :: Volume

record DeleteVolumeRequest =
  dv_VolumeId :: string

datatype DeleteVolumeResponse = DeleteVolumeResponse

record ControllerPublishVolumeRequest =
  cp_VolumeId :: string
  cp_NodeId :: string

record ControllerPublishVolumeResponse =
  PublishContext :: "string \<rightharpoonup> string"

record ControllerUnpublishVolumeRequest =
  cu_VolumeId :: string
  cu_NodeId :: string

datatype ControllerUnpublishVolumeResponse = ControllerUnpublishVolumeResponse

datatype ValidateVolumeCapabilitiesResponse = ValidateVolumeCapabilitiesResponse

datatype GetCapacityResponse = GetCapacityResponse

datatype CreateSnapshotResponse = CreateSnapshotResponse

datatype DeleteSnapshotResponse = DeleteSnapshotResponse

datatype ListSnapshotsResponse = ListSnapshotsResponse

datatype ControllerServiceCapability_RPC_Type =
  RPC_LIST_VOLUMES | RPC_CREATE_DELETE_VOLUME | RPC_PUBLISH_UNPUBLISH_VOLUME
| RPC_GET_CAPACITY | RPC_CREATE_DELETE_SNAPSHOT | RPC_LIST_SNAPSHOTS

record ControllerGetCapabilitiesResponse =
  Capabilities :: "ControllerServiceCapability_RPC_Type list"

section \<open>The collaborators\<close>

text \<open>
  The connection manager, the datacenter driver of \<^verbatim>\<open>vclib\<close>, and the helpers
  \<^verbatim>\<open>getAllFCDs\<close> and \<^verbatim>\<open>removePortFromHost\<close> are not part of \<^verbatim>\<open>controller.go\<close>: they
  are a parameter of every operation.  Each call reads and may change the state \<open>'s\<close> of
  the virtualization platform; a call that fails returns the error (\<open>Inl\<close>, or \<open>Some\<close>
  where Go returns the error alone), and a call that returns no error returns a result that
  is not nil.
\<close>

record 's backend =
  WhichVCandDCByZone ::
    "string \<Rightarrow> string \<Rightarrow> string \<Rightarrow> string \<Rightarrow> 's \<Rightarrow> (error + ZoneDiscoveryInfo) \<times> 's"
  WhichVCandDCByFCDId :: "string \<Rightarrow> 's \<Rightarrow> (error + FcdDiscoveryInfo) \<times> 's"
  GetFirstClassDisk ::
    "Datacenter \<Rightarrow> string \<Rightarrow> string \<Rightarrow> string \<Rightarrow> FindFCD \<Rightarrow> 's \<Rightarrow> (error + FirstClassDisk) \<times> 's"
  CreateFirstClassDisk ::
    "Datacenter \<Rightarrow> string \<Rightarrow> string \<Rightarrow> string \<Rightarrow> int \<Rightarrow> 's \<Rightarrow> error option \<times> 's"
  DeleteFirstClassDisk ::
    "Datacenter \<Rightarrow> string \<Rightarrow> string \<Rightarrow> string \<Rightarrow> 's \<Rightarrow> error option \<times> 's"
  GetVMByDNSName :: "Datacenter \<Rightarrow> string \<Rightarrow> 's \<Rightarrow> (error + VirtualMachine) \<times> 's"
  AttachDisk :: "VirtualMachine \<Rightarrow> string \<Rightarrow> VolumeOptions \<Rightarrow> 's \<Rightarrow> (error + string) \<times> 's"
  DetachDisk :: "VirtualMachine \<Rightarrow> string \<Rightarrow> 's \<Rightarrow> error option \<times> 's"
  getAllFCDs :: "'s \<Rightarrow> FirstClassDisk list \<times> 's"
  removePortFromHost :: "string \<Rightarrow> string"

text \<open>
  Every call to a collaborator is recorded, with its arguments and its result, so that
  "no create call is issued" is a statement about the record of calls.
\<close>

datatype event =
  Call_WhichVCandDCByZone string string string string "error + ZoneDiscoveryInfo"
| Call_WhichVCandDCByFCDId string "error + FcdDiscoveryInfo"
| Call_GetFirstClassDisk Datacenter string string string FindFCD "error + FirstClassDisk"
| Call_CreateFirstClassDisk Datacenter string string string int "error option"
| Call_DeleteFirstClassDisk Datacenter string string string "error option"
| Call_GetVMByDNSName Datacenter string "error + VirtualMachine"
| Call_AttachDisk VirtualMachine string VolumeOptions "error + string"
| Call_DetachDisk VirtualMachine string "error option"
| Call_getAllFCDs "FirstClassDisk list"

type_synonym 's world = "'s \<times> event list"

definition call_WhichVCandDCByZone ::
  "'s backend \<Rightarrow> string \<Rightarrow> string \<Rightarrow> string \<Rightarrow> string \<Rightarrow> 's world
     \<Rightarrow> (error + ZoneDiscoveryInfo) \<times> 's world" where
  "call_WhichVCandDCByZone B zoneLabel regionLabel zone region w =
     (case WhichVCandDCByZone B zoneLabel regionLabel zone region (fst w) of
        (r, s') \<Rightarrow> (r, (s', snd w @ [Call_WhichVCandDCByZone zoneLabel regionLabel zone region r])))"

definition call_WhichVCandDCByFCDId ::
  "'s backend \<Rightarrow> string \<Rightarrow> 's world \<Rightarrow> (error + FcdDiscoveryInfo) \<times> 's world" where
  "call_WhichVCandDCByFCDId B fcdID w =
     (case WhichVCandDCByFCDId B fcdID (fst w) of
        (r, s') \<Rightarrow> (r, (s', snd w @ [Call_WhichVCandDCByFCDId fcdID r])))"

definition call_GetFirstClassDisk ::
  "'s backend \<Rightarrow> Datacenter \<Rightarrow> string \<Rightarrow> string \<Rightarrow> string \<Rightarrow> FindFCD \<Rightarrow> 's world
     \<Rightarrow> (error + FirstClassDisk) \<times> 's world" where
  "call_GetFirstClassDisk B dc datastoreName datastoreType diskID findBy w =
     (case GetFirstClassDisk B dc datastoreName datastoreType diskID findBy (fst w) of
        (r, s') \<Rightarrow>
          (r, (s', snd w @ [Call_GetFirstClassDisk dc datastoreName datastoreType diskID findBy r])))"

definition call_CreateFirstClassDisk ::
  "'s backend \<Rightarrow> Datacenter \<Rightarrow> string \<Rightarrow> string \<Rightarrow> string \<Rightarrow> int \<Rightarrow> 's world
     \<Rightarrow> error option \<times> 's world" where
  "call_CreateFirstClassDisk B dc datastoreName datastoreType diskName diskSize w =
     (case CreateFirstClassDisk B dc datastoreName datastoreType diskName diskSize (fst w) of
        (r, s') \<Rightarrow>
          (r, (s', snd w @
                 [Call_CreateFirstClassDisk dc datastoreName datastoreType diskName diskSize r])))"

definition call_DeleteFirstClassDisk ::
  "'s backend \<Rightarrow> Datacenter \<Rightarrow> string \<Rightarrow> string \<Rightarrow> string \<Rightarrow> 's world
     \<Rightarrow> error option \<times> 's world" where
  "call_DeleteFirstClassDisk B dc datastoreName datastoreType diskID w =
     (case DeleteFirstClassDisk B dc datastoreName datastoreType diskID (fst w) of
        (r, s') \<Rightarrow>
          (r, (s', snd w @ [Call_DeleteFirstClassDisk dc datastoreName datastoreType diskID r])))"

definition call_GetVMByDNSName ::
  "'s backend \<Rightarrow> Datacenter \<Rightarrow> string \<Rightarrow> 's world \<Rightarrow> (error + VirtualMachine) \<times> 's world" where
  "call_GetVMByDNSName B dc nodeID w =
     (case GetVMByDNSName B dc nodeID (fst w) of
        (r, s') \<Rightarrow> (r, (s', snd w @ [Call_GetVMByDNSName dc nodeID r])))"

definition call_AttachDisk ::
  "'s backend \<Rightarrow> VirtualMachine \<Rightarrow> string \<Rightarrow> VolumeOptions \<Rightarrow> 's world
     \<Rightarrow> (error + string) \<times> 's world" where
  "call_AttachDisk B vm filePath options w =
     (case AttachDisk B vm filePath options (fst w) of
        (r, s') \<Rightarrow> (r, (s', snd w @ [Call_AttachDisk vm filePath options r])))"

definition call_DetachDisk ::
  "'s backend \<Rightarrow> VirtualMachine \<Rightarrow> string \<Rightarrow> 's world \<Rightarrow> error option \<times> 's world" where
  "call_DetachDisk B vm filePath w =
     (case DetachDisk B vm filePath (fst w) of
        (r, s') \<Rightarrow> (r, (s', snd w @ [Call_DetachDisk vm filePath r])))"

definition call_getAllFCDs :: "'s backend \<Rightarrow> 's world \<Rightarrow> FirstClassDisk list \<times> 's world" where
  "call_getAllFCDs B w =
     (case getAllFCDs B (fst w) of (r, s') \<Rightarrow> (r, (s', snd w @ [Call_getAllFCDs r])))"

section \<open>The controller\<close>

subsection \<open>CreateVolume\<close>

text \<open>
  \<^verbatim>\<open>volumeutil.RoundUpSize\<close> belongs to the Kubernetes library, outside this repository:
  the number of allocation units needed to hold the given size, computed as the quotient of
  the size by the unit, plus one when the remainder is positive:
  \<^verbatim>\<open>roundedUp := volumeSizeBytes / allocationUnitBytes;
  if volumeSizeBytes % allocationUnitBytes > 0 { roundedUp++ }; return roundedUp\<close>.
  The controller calls it with the unit \<^verbatim>\<open>GbInBytes\<close>, which is not zero.
\<close>

definition RoundUpSize :: "int \<Rightarrow> int \<Rightarrow> int" where
  "RoundUpSize volumeSizeBytes allocationUnitBytes =
     (let roundedUp = go_quot volumeSizeBytes allocationUnitBytes
      in if go_rem volumeSizeBytes allocationUnitBytes > 0 then wrap64 (roundedUp + 1)
         else roundedUp)"

text \<open>Lines 125 to 130: the size of the volume in megabytes.\<close>

definition CreateVolume_volSizeMB :: "CreateVolumeRequest \<Rightarrow> int" where
  "CreateVolume_volSizeMB req =
     (let volSizeBytes =
            (case cv_CapacityRange req of
               None \<Rightarrow> wrap64 (DefaultGbDiskSize * GbInBytes)
             | Some cr \<Rightarrow>
                 if RequiredBytes cr \<noteq> 0 then sint (RequiredBytes cr)
                 else wrap64 (DefaultGbDiskSize * GbInBytes))
      in wrap64 (RoundUpSize volSizeBytes GbInBytes * 1024))"

text \<open>Lines 132 to 137: the kind of the parent storage pool.\<close>

definition CreateVolume_datastoreType :: "constants \<Rightarrow> (string \<rightharpoonup> string) \<Rightarrow> string" where
  "CreateVolume_datastoreType K params =
     (let volType = lookup params (AttributeFirstClassDiskParentType K)
      in if volType = TypeDatastore K then TypeDatastore K else TypeDatastoreCluster K)"

text \<open>
  The loop over the topologies (the loop over the requisite list and the loop over the
  preferred list have the same body).  The third argument holds the variables
  \<^verbatim>\<open>discoveryInfo\<close> and \<^verbatim>\<open>err\<close>: \<open>None\<close> while both are still nil, else the result of
  the last call.  The loop breaks at the first call that returns no error.
\<close>

fun range_topologies ::
  "constants \<Rightarrow> 's backend \<Rightarrow> Config \<Rightarrow> (error + ZoneDiscoveryInfo) option \<Rightarrow> Topology list
     \<Rightarrow> 's world \<Rightarrow> (error + ZoneDiscoveryInfo) option \<times> 's world" where
  "range_topologies K B cfg cur [] w = (cur, w)"
| "range_topologies K B cfg cur (segments # rest) w =
     (let reqRegion = lookup segments (LabelZoneRegion K);
          reqZone = lookup segments (LabelZoneFailureDomain K)
      in case call_WhichVCandDCByZone B (Labels_Zone cfg) (Labels_Region cfg) reqZone reqRegion w of
           (Inr discoveryInfo, w') \<Rightarrow> (Some (Inr discoveryInfo), w')
         | (Inl err, w') \<Rightarrow> range_topologies K B cfg (Some (Inl err)) rest w')"

text \<open>Lines 147 to 178: the choice of the vCenter and datacenter.\<close>

definition CreateVolume_discover ::
  "constants \<Rightarrow> 's backend \<Rightarrow> Config \<Rightarrow> TopologyRequirement option \<Rightarrow> string \<Rightarrow> string
     \<Rightarrow> 's world \<Rightarrow> (error + ZoneDiscoveryInfo) option \<times> 's world" where
  "CreateVolume_discover K B cfg accessibility zone region w =
     (case accessibility of
        None \<Rightarrow>
          (case call_WhichVCandDCByZone B (Labels_Zone cfg) (Labels_Region cfg) zone region w of
             (r, w') \<Rightarrow> (Some r, w'))
      | Some a \<Rightarrow>
          if Requisite a \<noteq> None \<or> Preferred a \<noteq> None then
            (case Requisite a of
               Some requisites \<Rightarrow> range_topologies K B cfg None requisites w
             | None \<Rightarrow>
                 (case Preferred a of
                    Some preferreds \<Rightarrow> range_topologies K B cfg None preferreds w
                  | None \<Rightarrow> (None, w)))
          else
            (case call_WhichVCandDCByZone B (Labels_Zone cfg) (Labels_Region cfg) zone region w of
               (r, w') \<Rightarrow> (Some r, w')))"

text \<open>Lines 214 to 236: the attributes and the response, built from the disk read back.\<close>

definition CreateVolume_response ::
  "constants \<Rightarrow> ZoneDiscoveryInfo \<Rightarrow> FirstClassDisk \<Rightarrow> CreateVolumeResponse" where
  "CreateVolume_response K discoveryInfo firstClassDisk =
     (let a1 = Map.empty(AttributeFirstClassDiskType K \<mapsto> FirstClassDiskTypeString K);
          a2 = a1(AttributeFirstClassDiskVcenter K \<mapsto> zdi_VcServer discoveryInfo);
          a3 = a2(AttributeFirstClassDiskDatacenter K \<mapsto> dc_Name (zdi_DataCenter discoveryInfo));
          a4 = a3(AttributeFirstClassDiskName K \<mapsto> Config_Name firstClassDisk);
          a5 = a4(AttributeFirstClassDiskParentType K \<mapsto> ParentType firstClassDisk);
          attributes =
            (if ParentType firstClassDisk = TypeDatastoreCluster K
             then a5(AttributeFirstClassDiskParentName K \<mapsto> StoragePodInfo_Summary_Name firstClassDisk,
                     AttributeFirstClassDiskOwningDatastore K \<mapsto> DatastoreInfo_Info_Name firstClassDisk)
             else a5(AttributeFirstClassDiskParentName K \<mapsto> DatastoreInfo_Info_Name firstClassDisk))
      in \<lparr>cv_Volume =
           \<lparr>VolumeId = Config_Id firstClassDisk,
            CapacityBytes = wrap64 (Config_CapacityInMB firstClassDisk * MbInBytes),
            VolumeContext = attributes\<rparr>\<rparr>)"

definition CreateVolume ::
  "constants \<Rightarrow> 's backend \<Rightarrow> Config \<Rightarrow> CreateVolumeRequest \<Rightarrow> 's world
     \<Rightarrow> CreateVolumeResponse outcome \<times> 's world" where
  "CreateVolume K B cfg req w =
     (case cv_Parameters req of
        None \<Rightarrow> (Return None (Some (StatusError Internal)), w)
      | Some params \<Rightarrow>
          if length (cv_Name req) = 0 then (Return None (Some (StatusError Internal)), w)
          else if length (lookup params (AttributeFirstClassDiskParentType K)) = 0
          then (Return None (Some (StatusError Internal)), w)
          else if length (lookup params (AttributeFirstClassDiskParentName K)) = 0
          then (Return None (Some (StatusError Internal)), w)
          else
            (let volName = cv_Name req;
                 volSizeMB = CreateVolume_volSizeMB req;
                 datastoreType = CreateVolume_datastoreType K params;
                 datastoreName = lookup params (AttributeFirstClassDiskParentName K);
                 zone = lookup params (AttributeFirstClassDiskZone K);
                 region = lookup params (AttributeFirstClassDiskRegion K)
             in case CreateVolume_discover K B cfg (cv_AccessibilityRequirements req) zone region w of
                  (Some (Inl err), w1) \<Rightarrow> (Return None (Some (StatusError Internal)), w1)
                | (None, w1) \<Rightarrow> (Panic, w1)
                | (Some (Inr discoveryInfo), w1) \<Rightarrow>
                    (case call_GetFirstClassDisk B (zdi_DataCenter discoveryInfo)
                            datastoreName datastoreType volName FindFCDByName w1 of
                       (Inr firstClassDisk, w2) \<Rightarrow>
                         if Config_CapacityInMB firstClassDisk \<noteq> volSizeMB
                         then (Return None (Some (StatusError AlreadyExists)), w2)
                         else (Return (Some (CreateVolume_response K discoveryInfo firstClassDisk))
                                 None, w2)
                     | (Inl _, w2) \<Rightarrow>
                         (case call_CreateFirstClassDisk B (zdi_DataCenter discoveryInfo)
                                 datastoreName datastoreType volName volSizeMB w2 of
                            (Some err, w3) \<Rightarrow> (Return None (Some (StatusError Internal)), w3)
                          | (None, w3) \<Rightarrow>
                              (case call_GetFirstClassDisk B (zdi_DataCenter discoveryInfo)
                                      datastoreName datastoreType volName FindFCDByName w3 of
                                 (Inl err, w4) \<Rightarrow>
                                   (Return None (Some (StatusError Internal)), w4)
                               | (Inr firstClassDisk, w4) \<Rightarrow>
                                   (Return
                                      (Some (CreateVolume_response K discoveryInfo firstClassDisk))
                                      None, w4))))))"

subsection \<open>DeleteVolume\<close>

definition DeleteVolume ::
  "constants \<Rightarrow> 's backend \<Rightarrow> DeleteVolumeRequest \<Rightarrow> 's world
     \<Rightarrow> DeleteVolumeResponse outcome \<times> 's world" where
  "DeleteVolume K B req w =
     (if length (dv_VolumeId req) = 0 then (Return None (Some (StatusError Internal)), w)
      else case call_WhichVCandDCByFCDId B (dv_VolumeId req) w of
             (Inl err, w1) \<Rightarrow>
               if err = ErrNoDiskIDFound then (Return (Some DeleteVolumeResponse) None, w1)
               else (Return None (Some (StatusError Internal)), w1)
           | (Inr discoveryInfo, w1) \<Rightarrow>
               (let datastoreType = ParentType (fdi_FCDInfo discoveryInfo);
                    datastoreName =
                      (if datastoreType = TypeDatastore K
                       then DatastoreInfo_Info_Name (fdi_FCDInfo discoveryInfo)
                       else StoragePodInfo_Summary_Name (fdi_FCDInfo discoveryInfo))
                in case call_DeleteFirstClassDisk B (fdi_DataCenter discoveryInfo)
                          datastoreName datastoreType (dv_VolumeId req) w1 of
                     (Some err, w2) \<Rightarrow> (Return None (Some (StatusError Internal)), w2)
                   | (None, w2) \<Rightarrow> (Return (Some DeleteVolumeResponse) None, w2)))"

subsection \<open>ControllerPublishVolume and ControllerUnpublishVolume\<close>

text \<open>
  The type assertion on the backing of the disk panics on every backing that is not file
  backed.
\<close>

definition ControllerPublishVolume ::
  "constants \<Rightarrow> 's backend \<Rightarrow> ControllerPublishVolumeRequest \<Rightarrow> 's world
     \<Rightarrow> ControllerPublishVolumeResponse outcome \<times> 's world" where
  "ControllerPublishVolume K B req w =
     (if length (cp_VolumeId req) = 0 then (Return None (Some (StatusError Internal)), w)
      else if length (cp_NodeId req) = 0 then (Return None (Some (StatusError Internal)), w)
      else case call_WhichVCandDCByFCDId B (cp_VolumeId req) w of
             (Inl err, w1) \<Rightarrow> (Return None (Some (StatusError Internal)), w1)
           | (Inr discoveryInfo, w1) \<Rightarrow>
               (let fcd = fdi_FCDInfo discoveryInfo
                in case call_GetVMByDNSName B (fdi_DataCenter discoveryInfo) (cp_NodeId req) w1 of
                     (Inl err, w2) \<Rightarrow> (Return None (Some err), w2)
                   | (Inr vm, w2) \<Rightarrow>
                       (case Config_Backing fcd of
                          BaseConfigInfoOtherBackingInfo \<Rightarrow> (Panic, w2)
                        | BaseConfigInfoDiskFileBackingInfo filePath \<Rightarrow>
                            (case call_AttachDisk B vm filePath
                                    \<lparr>SCSIControllerType = PVSCSIControllerType K\<rparr> w2 of
                               (Inl err, w3) \<Rightarrow> (Return None (Some err), w3)
                             | (Inr diskUUID, w3) \<Rightarrow>
                                 (let p1 = Map.empty(AttributeFirstClassDiskType K \<mapsto>
                                             FirstClassDiskTypeString K);
                                      p2 = p1(AttributeFirstClassDiskVcenter K \<mapsto>
                                             fdi_VcServer discoveryInfo);
                                      p3 = p2(AttributeFirstClassDiskDatacenter K \<mapsto>
                                             dc_Name (fdi_DataCenter discoveryInfo));
                                      p4 = p3(AttributeFirstClassDiskName K \<mapsto> Config_Name fcd);
                                      p5 = p4(AttributeFirstClassDiskParentType K \<mapsto> ParentType fcd);
                                      p6 =
                                        (if ParentType fcd = TypeDatastoreCluster K
                                         then p5(AttributeFirstClassDiskParentName K \<mapsto>
                                                   StoragePodInfo_Summary_Name fcd,
                                                 AttributeFirstClassDiskOwningDatastore K \<mapsto>
                                                   DatastoreInfo_Info_Name fcd)
                                         else p5(AttributeFirstClassDiskParentName K \<mapsto>
                                                   DatastoreInfo_Info_Name fcd));
                                      publishInfo = p6(AttributeFirstClassDiskPage83Data K \<mapsto> diskUUID)
                                  in (Return (Some \<lparr>PublishContext = publishInfo\<rparr>) None, w3))))))"

definition ControllerUnpublishVolume ::
  "constants \<Rightarrow> 's backend \<Rightarrow> ControllerUnpublishVolumeRequest \<Rightarrow> 's world
     \<Rightarrow> ControllerUnpublishVolumeResponse outcome \<times> 's world" where
  "ControllerUnpublishVolume K B req w =
     (if length (cu_VolumeId req) = 0 then (Return None (Some (StatusError Internal)), w)
      else if length (cu_NodeId req) = 0 then (Return None (Some (StatusError Internal)), w)
      else case call_WhichVCandDCByFCDId B (cu_VolumeId req) w of
             (Inl err, w1) \<Rightarrow> (Return None (Some (StatusError Internal)), w1)
           | (Inr discoveryInfo, w1) \<Rightarrow>
               (let fcd = fdi_FCDInfo discoveryInfo
                in case call_GetVMByDNSName B (fdi_DataCenter discoveryInfo) (cu_NodeId req) w1 of
                     (Inl err, w2) \<Rightarrow> (Return None (Some err), w2)
                   | (Inr vm, w2) \<Rightarrow>
                       (case Config_Backing fcd of
                          BaseConfigInfoOtherBackingInfo \<Rightarrow> (Panic, w2)
                        | BaseConfigInfoDiskFileBackingInfo filePath \<Rightarrow>
                            (case call_DetachDisk B vm filePath w2 of
                               (Some err, w3) \<Rightarrow> (Return None (Some err), w3)
                             | (None, w3) \<Rightarrow>
                                 (Return (Some ControllerUnpublishVolumeResponse) None, w3)))))"

subsection \<open>ListVolumes\<close>

text \<open>The body of the loop over the page: one entry for one disk.\<close>

definition ListVolumes_entry :: "constants \<Rightarrow> 's backend \<Rightarrow> FirstClassDisk \<Rightarrow> Volume" where
  "ListVolumes_entry K B firstClassDisk =
     (let a1 = Map.empty(AttributeFirstClassDiskType K \<mapsto> FirstClassDiskTypeString K);
          a2 = a1(AttributeFirstClassDiskVcenter K \<mapsto>
                 removePortFromHost B (dc_Host (fcd_Datacenter firstClassDisk)));
          a3 = a2(AttributeFirstClassDiskDatacenter K \<mapsto> dc_Name (fcd_Datacenter firstClassDisk));
          a4 = a3(AttributeFirstClassDiskName K \<mapsto> Config_Name firstClassDisk);
          a5 = a4(AttributeFirstClassDiskParentType K \<mapsto> ParentType firstClassDisk);
          attributes =
            (if ParentType firstClassDisk = TypeDatastoreCluster K
             then a5(AttributeFirstClassDiskParentName K \<mapsto> StoragePodInfo_Summary_Name firstClassDisk,
                     AttributeFirstClassDiskOwningDatastore K \<mapsto> DatastoreInfo_Info_Name firstClassDisk)
             else a5(AttributeFirstClassDiskParentName K \<mapsto> DatastoreInfo_Info_Name firstClassDisk))
      in \<lparr>VolumeId = Config_Id firstClassDisk,
          CapacityBytes = wrap64 (Config_CapacityInMB firstClassDisk * MbInBytes),
          VolumeContext = attributes\<rparr>)"

text \<open>
  \<^verbatim>\<open>MaxEntries\<close> is an \<^verbatim>\<open>int32\<close>, converted to \<^verbatim>\<open>int\<close> where it is used.  An absent next
  token is the empty string, the zero value of the field.
\<close>

definition ListVolumes ::
  "constants \<Rightarrow> 's backend \<Rightarrow> ListVolumesRequest \<Rightarrow> 's world
     \<Rightarrow> ListVolumesResponse outcome \<times> 's world" where
  "ListVolumes K B req w =
     (case call_getAllFCDs B w of
        (firstClassDisks, w1) \<Rightarrow>
          (let total = int (length firstClassDisks)
           in case (if StartingToken req \<noteq> [] then Atoi (StartingToken req) else Some 0) of
                None \<Rightarrow> (Return None (Some (StatusError Internal)), w1)
              | Some start \<Rightarrow>
                  (let stop =
                         (if sint (MaxEntries req) \<noteq> 0 \<and> total > sint (MaxEntries req)
                          then wrap64 (start + sint (MaxEntries req) - 1)
                          else total)
                   in if start > total then (Return None (Some (StatusError Internal)), w1)
                      else
                        (case (if stop \<ge> total then slice_from firstClassDisks start
                               else slice_range firstClassDisks start (wrap64 (stop + 1))) of
                           None \<Rightarrow> (Panic, w1)
                         | Some subsetFirstClassDisks \<Rightarrow>
                             (Return
                                (Some \<lparr>Entries = map (ListVolumes_entry K B) subsetFirstClassDisks,
                                       NextToken =
                                         (if stop < total then Itoa (wrap64 (stop + 1)) else [])\<rparr>)
                                None, w1)))))"

subsection \<open>The operations without a body\<close>

definition ValidateVolumeCapabilities ::
  "'s backend \<Rightarrow> 'req \<Rightarrow> 's world \<Rightarrow> ValidateVolumeCapabilitiesResponse outcome \<times> 's world" where
  "ValidateVolumeCapabilities B req w = (Return (Some ValidateVolumeCapabilitiesResponse) None, w)"

definition GetCapacity ::
  "'s backend \<Rightarrow> 'req \<Rightarrow> 's world \<Rightarrow> GetCapacityResponse outcome \<times> 's world" where
  "GetCapacity B req w = (Return None None, w)"

definition CreateSnapshot ::
  "'s backend \<Rightarrow> 'req \<Rightarrow> 's world \<Rightarrow> CreateSnapshotResponse outcome \<times> 's world" where
  "CreateSnapshot B req w = (Return None None, w)"

definition DeleteSnapshot ::
  "'s backend \<Rightarrow> 'req \<Rightarrow> 's world \<Rightarrow> DeleteSnapshotResponse outcome \<times> 's world" where
  "DeleteSnapshot B req w = (Return None None, w)"

definition ListSnapshots ::
  "'s backend \<Rightarrow> 'req \<Rightarrow> 's world \<Rightarrow> ListSnapshotsResponse outcome \<times> 's world" where
  "ListSnapshots B req w = (Return None None, w)"

definition ControllerGetCapabilities ::
  "'s backend \<Rightarrow> 'req \<Rightarrow> 's world \<Rightarrow> ControllerGetCapabilitiesResponse outcome \<times> 's world" where
  "ControllerGetCapabilities B req w =
     (Return (Some \<lparr>Capabilities =
                [RPC_LIST_VOLUMES, RPC_CREATE_DELETE_VOLUME, RPC_PUBLISH_UNPUBLISH_VOLUME]\<rparr>)
        None, w)"

section \<open>Reading the record of calls\<close>

text \<open>The arguments and the result of a call that resolves a zone; \<open>None\<close> for any other call.\<close>

fun zone_call_args :: "event \<Rightarrow> (string \<times> string \<times> string \<times> string) option" where
  "zone_call_args (Call_WhichVCandDCByZone zoneLabel regionLabel zone region r) =
     Some (zoneLabel, regionLabel, zone, region)"
| "zone_call_args _ = None"

fun zone_call_result :: "event \<Rightarrow> (error + ZoneDiscoveryInfo) option" where
  "zone_call_result (Call_WhichVCandDCByZone zoneLabel regionLabel zone region r) = Some r"
| "zone_call_result _ = None"

fun zone_call_failed :: "event \<Rightarrow> bool" where
  "zone_call_failed (Call_WhichVCandDCByZone zoneLabel regionLabel zone region (Inl e)) = True"
| "zone_call_failed _ = False"

definition is_zone_call :: "event \<Rightarrow> bool" where
  "is_zone_call e = (zone_call_args e \<noteq> None)"

text \<open>A call that changes the platform: creating or deleting a disk, attaching or detaching one.\<close>

fun is_mutating_call :: "event \<Rightarrow> bool" where
  "is_mutating_call (Call_CreateFirstClassDisk dc datastoreName datastoreType diskName diskSize r) = True"
| "is_mutating_call (Call_DeleteFirstClassDisk dc datastoreName datastoreType diskID r) = True"
| "is_mutating_call (Call_AttachDisk vm filePath options r) = True"
| "is_mutating_call (Call_DetachDisk vm filePath r) = True"
| "is_mutating_call _ = False"

section \<open>The properties in the words of the specification\<close>

text \<open>The zone and region a topology asks for, with the labels of the configuration.\<close>

definition segment_args :: "constants \<Rightarrow> Config \<Rightarrow> Topology \<Rightarrow> string \<times> string \<times> string \<times> string" where
  "segment_args K cfg segments =
     (Labels_Zone cfg, Labels_Region cfg,
      lookup segments (LabelZoneFailureDomain K), lookup segments (LabelZoneRegion K))"

text \<open>
  "Accept the first segment that resolves successfully": the calls made are for the
  topologies in list order, from the first one on; every call but the last failed; the
  result of the last call is the result of the resolution; and a last call that failed was
  the call for the last topology of the list.
\<close>

definition first_success_wins ::
  "constants \<Rightarrow> Config \<Rightarrow> Topology list \<Rightarrow> event list \<Rightarrow> (error + ZoneDiscoveryInfo) option \<Rightarrow> bool" where
  "first_success_wins K cfg topologies calls r =
     (calls \<noteq> []
      \<and> map zone_call_args calls =
          map (\<lambda>t. Some (segment_args K cfg t)) (take (length calls) topologies)
      \<and> list_all zone_call_failed (butlast calls)
      \<and> zone_call_result (last calls) = r
      \<and> (zone_call_failed (last calls) \<longrightarrow> length calls = length topologies))"

text \<open>The keys of the attribute maps are pairwise different strings.\<close>

definition attribute_keys_distinct :: "constants \<Rightarrow> bool" where
  "attribute_keys_distinct K =
     distinct
       [AttributeFirstClassDiskType K, AttributeFirstClassDiskVcenter K,
        AttributeFirstClassDiskDatacenter K, AttributeFirstClassDiskName K,
        AttributeFirstClassDiskParentType K, AttributeFirstClassDiskParentName K,
        AttributeFirstClassDiskOwningDatastore K, AttributeFirstClassDiskPage83Data K]"

text \<open>
  "Every attribute map always includes the backend type marker, endpoint, datacenter, disk
  name, parent-pool type, and parent-pool name; it additionally includes the owning pool
  name when the parent type is a pool cluster", for the attribute map \<open>m\<close> of the disk \<open>d\<close>.
\<close>

definition attributes_ok :: "constants \<Rightarrow> FirstClassDisk \<Rightarrow> (string \<rightharpoonup> string) \<Rightarrow> bool" where
  "attributes_ok K d m =
     (m (AttributeFirstClassDiskType K) = Some (FirstClassDiskTypeString K)
      \<and> m (AttributeFirstClassDiskVcenter K) \<noteq> None
      \<and> m (AttributeFirstClassDiskDatacenter K) \<noteq> None
      \<and> m (AttributeFirstClassDiskName K) = Some (Config_Name d)
      \<and> m (AttributeFirstClassDiskParentType K) = Some (ParentType d)
      \<and> m (AttributeFirstClassDiskParentName K) \<noteq> None
      \<and> ((m (AttributeFirstClassDiskOwningDatastore K) \<noteq> None)
           = (ParentType d = TypeDatastoreCluster K)))"

subsection \<open>The pagination formula in the words of the specification\<close>

text \<open>
  The specification describes the page of ListVolumes as \<open>[start, stop]\<close> where \<open>stop\<close> is
  the total "when maxEntries is zero or the remaining set is smaller than maxEntries, else
  start + maxEntries - 1", with a next token of \<open>stop + 1\<close> exactly when \<open>stop\<close> is below the
  total.  These two definitions follow those words, to be compared with the code.
\<close>

definition spec_stop :: "int \<Rightarrow> int \<Rightarrow> int \<Rightarrow> int" where
  "spec_stop start totalEntries maxEntries =
     (if maxEntries = 0 \<or> totalEntries - start < maxEntries then totalEntries
      else start + maxEntries - 1)"

definition spec_NextToken :: "int \<Rightarrow> int \<Rightarrow> int \<Rightarrow> string" where
  "spec_NextToken start totalEntries maxEntries =
     (if spec_stop start totalEntries maxEntries < totalEntries
      then Itoa (spec_stop start totalEntries maxEntries + 1) else [])"

section \<open>A small platform to run the operations on\<close>

text \<open>
  One vCenter with one datacenter; the state of the platform is the list of its disks.
  Only the zone \<open>zoneB\<close> of the region \<open>regionY\<close> resolves, and only the node \<open>node1\<close>
  exists.
\<close>

definition ex_constants :: constants where
  "ex_constants =
     \<lparr>AttributeFirstClassDiskType = ''type'',
      AttributeFirstClassDiskName = ''name'',
      AttributeFirstClassDiskParentType = ''parent_type'',
      AttributeFirstClassDiskParentName = ''parent_name'',
      AttributeFirstClassDiskOwningDatastore = ''owning_datastore'',
      AttributeFirstClassDiskVcenter = ''vcenter'',
      AttributeFirstClassDiskDatacenter = ''datacenter'',
      AttributeFirstClassDiskPage83Data = ''page83data'',
      AttributeFirstClassDiskZone = ''zone'',
      AttributeFirstClassDiskRegion = ''region'',
      FirstClassDiskTypeString = ''First Class Disk'',
      LabelZoneRegion = ''region-label'',
      LabelZoneFailureDomain = ''zone-label'',
      TypeDatastore = ''Datastore'',
      TypeDatastoreCluster = ''DatastoreCluster'',
      PVSCSIControllerType = ''pvscsi''\<rparr>"

definition ex_config :: Config where
  "ex_config = \<lparr>Labels_Zone = ''k8s-zone'', Labels_Region = ''k8s-region''\<rparr>"

definition ex_dc :: Datacenter where
  "ex_dc = \<lparr>dc_Name = ''dc1'', dc_Host = ''vc1:443''\<rparr>"

definition ex_zdi :: ZoneDiscoveryInfo where
  "ex_zdi = \<lparr>zdi_VcServer = ''vc1'', zdi_DataCenter = ex_dc\<rparr>"

definition ex_disk :: "string \<Rightarrow> string \<Rightarrow> string \<Rightarrow> int \<Rightarrow> FirstClassDisk" where
  "ex_disk parentType parentName diskName capacityInMB =
     \<lparr>fcd_Datacenter = ex_dc,
      Config_Id = ''id-'' @ diskName,
      Config_Name = diskName,
      Config_CapacityInMB = capacityInMB,
      Config_Backing = BaseConfigInfoDiskFileBackingInfo (''[ds1] fcd/'' @ diskName @ ''.vmdk''),
      ParentType = parentType,
      StoragePodInfo_Summary_Name = (if parentType = ''DatastoreCluster'' then parentName else []),
      DatastoreInfo_Info_Name = (if parentType = ''DatastoreCluster'' then ''ds1'' else parentName)\<rparr>"

definition ex_parent :: "FirstClassDisk \<Rightarrow> string" where
  "ex_parent d =
     (if ParentType d = ''DatastoreCluster'' then StoragePodInfo_Summary_Name d
      else DatastoreInfo_Info_Name d)"

definition ex_backend :: "FirstClassDisk list backend" where
  "ex_backend =
     \<lparr>WhichVCandDCByZone =
        (\<lambda>zoneLabel regionLabel zone region s.
           if zone = ''zoneB'' \<and> region = ''regionY'' then (Inr ex_zdi, s)
           else (Inl (BackendError ''no matching datacenter''), s)),
      WhichVCandDCByFCDId =
        (\<lambda>fcdID s.
           case find (\<lambda>d. Config_Id d = fcdID) s of
             None \<Rightarrow> (Inl ErrNoDiskIDFound, s)
           | Some d \<Rightarrow> (Inr \<lparr>fdi_VcServer = ''vc1'', fdi_DataCenter = ex_dc, fdi_FCDInfo = d\<rparr>, s)),
      GetFirstClassDisk =
        (\<lambda>dc datastoreName datastoreType diskID findBy s.
           case find (\<lambda>d. (if findBy = FindFCDByName then Config_Name d else Config_Id d) = diskID
                           \<and> ParentType d = datastoreType \<and> ex_parent d = datastoreName) s of
             None \<Rightarrow> (Inl (BackendError ''no disk found''), s)
           | Some d \<Rightarrow> (Inr d, s)),
      CreateFirstClassDisk =
        (\<lambda>dc datastoreName datastoreType diskName diskSize s.
           (None, s @ [ex_disk datastoreType datastoreName diskName diskSize])),
      DeleteFirstClassDisk =
        (\<lambda>dc datastoreName datastoreType diskID s.
           (None, filter (\<lambda>d. Config_Id d \<noteq> diskID) s)),
      GetVMByDNSName =
        (\<lambda>dc nodeID s.
           if nodeID = ''node1'' then (Inr ''vm1'', s)
           else (Inl (BackendError ''no such node''), s)),
      AttachDisk = (\<lambda>vm filePath options s. (Inr ''6000c29b'', s)),
      DetachDisk = (\<lambda>vm filePath s. (None, s)),
      getAllFCDs = (\<lambda>s. (s, s)),
      removePortFromHost = takeWhile (\<lambda>c. c \<noteq> CHR '':'')\<rparr>"

definition ex_d :: "string \<Rightarrow> FirstClassDisk" where
  "ex_d diskName = ex_disk ''Datastore'' ''ds1'' diskName 1024"

definition ex_three :: "FirstClassDisk list" where
  "ex_three = [ex_d ''disk0'', ex_d ''disk1'', ex_d ''disk2'']"

definition ex_ten :: "FirstClassDisk list" where
  "ex_ten =
     [ex_d ''disk0'', ex_d ''disk1'', ex_d ''disk2'', ex_d ''disk3'', ex_d ''disk4'',
      ex_d ''disk5'', ex_d ''disk6'', ex_d ''disk7'', ex_d ''disk8'', ex_d ''disk9'']"

definition ex_params :: "string \<rightharpoonup> string" where
  "ex_params =
     [''parent_type'' \<mapsto> ''Datastore'', ''parent_name'' \<mapsto> ''ds1'',
      ''zone'' \<mapsto> ''zoneB'', ''region'' \<mapsto> ''regionY'']"

definition ex_request :: "string \<Rightarrow> 64 word \<Rightarrow> CreateVolumeRequest" where
  "ex_request volName requiredBytes =
     \<lparr>cv_Name = volName, cv_Parameters = Some ex_params,
      cv_CapacityRange = Some \<lparr>RequiredBytes = requiredBytes, LimitBytes = 0\<rparr>,
      cv_AccessibilityRequirements = None\<rparr>"

definition ex_topology :: "string \<Rightarrow> string \<Rightarrow> Topology" where
  "ex_topology zone region = [''zone-label'' \<mapsto> zone, ''region-label'' \<mapsto> region]"

definition ex_accessibility :: TopologyRequirement where
  "ex_accessibility =
     \<lparr>Requisite = Some [ex_topology ''zoneA'' ''regionX'', ex_topology ''zoneB'' ''regionY''],
      Preferred = Some [ex_topology ''zoneC'' ''regionZ'']\<rparr>"

definition ex_accessibility_failing :: TopologyRequirement where
  "ex_accessibility_failing =
     \<lparr>Requisite = Some [ex_topology ''zoneA'' ''regionX''],
      Preferred = Some [ex_topology ''zoneB'' ''regionY'']\<rparr>"

definition ex_zone_failed :: event where
  "ex_zone_failed =
     Call_WhichVCandDCByZone ''k8s-zone'' ''k8s-region'' ''zoneA'' ''regionX''
       (Inl (BackendError ''no matching datacenter''))"

definition ex_request_topology :: "TopologyRequirement \<Rightarrow> CreateVolumeRequest" where
  "ex_request_topology a = (ex_request ''vol1'' 1)\<lparr>cv_AccessibilityRequirements := Some a\<rparr>"

text \<open>The same request with the parent type spelled as the literal of the single datastore.\<close>

definition ex_request_exact :: CreateVolumeRequest where
  "ex_request_exact =
     \<lparr>cv_Name = ''vol2'',
      cv_Parameters =
        Some [''parent_type'' \<mapsto> ''Datastore'', ''parent_name'' \<mapsto> ''pod1'',
              ''zone'' \<mapsto> ''zoneB'', ''region'' \<mapsto> ''regionY''],
      cv_CapacityRange = None,
      cv_AccessibilityRequirements = None\<rparr>"

definition ex_vol1 :: FirstClassDisk where
  "ex_vol1 = ex_disk ''Datastore'' ''ds1'' ''vol1'' 1024"

definition ex_zone_call :: event where
  "ex_zone_call =
     Call_WhichVCandDCByZone ''k8s-zone'' ''k8s-region'' ''zoneB'' ''regionY'' (Inr ex_zdi)"

definition ex_get_call :: "error + FirstClassDisk \<Rightarrow> event" where
  "ex_get_call r = Call_GetFirstClassDisk ex_dc ''ds1'' ''Datastore'' ''vol1'' FindFCDByName r"

definition ex_create_call :: event where
  "ex_create_call = Call_CreateFirstClassDisk ex_dc ''ds1'' ''Datastore'' ''vol1'' 1024 None"

text \<open>A request whose parent type is misspelled.\<close>

definition ex_request_misspelled :: CreateVolumeRequest where
  "ex_request_misspelled =
     \<lparr>cv_Name = ''vol2'',
      cv_Parameters =
        Some [''parent_type'' \<mapsto> ''datastore'', ''parent_name'' \<mapsto> ''pod1'',
              ''zone'' \<mapsto> ''zoneB'', ''region'' \<mapsto> ''regionY''],
      cv_CapacityRange = None,
      cv_AccessibilityRequirements = None\<rparr>"

section \<open>Machine arithmetic and strconv\<close>

lemma wrap64_id: "- (2 ^ 63) \<le> x \<Longrightarrow> x < 2 ^ 63 \<Longrightarrow> wrap64 x = x"
  by (simp add: wrap64_def)

lemma Atoi_Nil: "Atoi [] = None"
  by (simp add: Atoi_def)

section \<open>ListVolumes\<close>

text \<open>ListVolumes once the list of disks and the start offset are known.\<close>

lemma ListVolumes_unfold:
  assumes "getAllFCDs B (fst w) = (disks, s')"
    and "(if tok \<noteq> [] then Atoi tok else Some 0) = Some start"
  shows "ListVolumes K B \<lparr>StartingToken = tok, MaxEntries = maxEntries\<rparr> w =
     (let w1 = (s', snd w @ [Call_getAllFCDs disks]);
          stop = (if sint maxEntries \<noteq> 0 \<and> int (length disks) > sint maxEntries
                  then wrap64 (start + sint maxEntries - 1) else int (length disks))
      in if start > int (length disks) then (Return None (Some (StatusError Internal)), w1)
         else (case (if stop \<ge> int (length disks) then slice_from disks start
                     else slice_range disks start (wrap64 (stop + 1))) of
                 None \<Rightarrow> (Panic, w1)
               | Some subsetFirstClassDisks \<Rightarrow>
                   (Return (Some \<lparr>Entries = map (ListVolumes_entry K B) subsetFirstClassDisks,
                                  NextToken = (if stop < int (length disks)
                                               then Itoa (wrap64 (stop + 1)) else [])\<rparr>)
                      None, w1)))"
proof (cases "tok = []")
  case True
  with assms have "start = 0" by simp
  with True assms(1) show ?thesis
    by (simp add: ListVolumes_def call_getAllFCDs_def Let_def cong: option.case_cong)
next
  case False
  with assms have "Atoi tok = Some start" by simp
  with False assms(1) show ?thesis
    by (simp add: ListVolumes_def call_getAllFCDs_def Let_def cong: option.case_cong)
qed

text \<open>
  The page of a call whose offset lies within the list: the disks from \<open>start\<close> up to
  \<open>stop\<close>, where \<open>stop\<close> is the total when \<open>maxEntries\<close> is zero or at least the total.
\<close>

lemma ListVolumes_page:
  assumes g: "getAllFCDs B (fst w) = (disks, s')"
    and len': "int (length disks) < 2 ^ 62"
    and tok: "(if tok \<noteq> [] then Atoi tok else Some 0) = Some start"
    and s0: "0 \<le> start" and s1: "start \<le> int (length disks)"
    and m0: "0 \<le> sint maxEntries"
    and stop: "stop = (if sint maxEntries = 0 \<or> int (length disks) \<le> sint maxEntries
                       then int (length disks) else start + sint maxEntries - 1)"
  shows "ListVolumes K B \<lparr>StartingToken = tok, MaxEntries = maxEntries\<rparr> w =
           (Return (Some \<lparr>Entries = map (ListVolumes_entry K B)
                                       (take (nat (stop + 1 - start)) (drop (nat start) disks)),
                          NextToken = (if stop < int (length disks) then Itoa (stop + 1) else [])\<rparr>)
              None,
            (s', snd w @ [Call_getAllFCDs disks]))"
proof -
  have mb: "sint maxEntries < 2 ^ 31"
    using sint_lt [of maxEntries] by simp
  have w1: "wrap64 (start + sint maxEntries - 1) = start + sint maxEntries - 1"
    using s0 s1 m0 mb len' by (intro wrap64_id) auto
  have code_stop: "(if sint maxEntries \<noteq> 0 \<and> int (length disks) > sint maxEntries
                    then wrap64 (start + sint maxEntries - 1) else int (length disks)) = stop"
    unfolding stop w1 by auto
  have w2: "stop < int (length disks) \<Longrightarrow> wrap64 (stop + 1) = stop + 1"
    using s0 m0 len' by (intro wrap64_id) (auto simp: stop split: if_splits)
  note U = ListVolumes_unfold [OF g tok, of K maxEntries, unfolded code_stop Let_def]
  show ?thesis
  proof (cases "stop \<ge> int (length disks)")
    case True
    have "take (nat (stop + 1 - start)) (drop (nat start) disks) = drop (nat start) disks"
      using True s0 s1 by simp
    then show ?thesis
      using True s0 s1 by (simp add: U slice_from_def)
  next
    case False
    then have lt: "stop < int (length disks)" by simp
    have ge: "start \<le> stop + 1"
      using lt m0 by (auto simp: stop split: if_splits)
    have "nat (stop + 1) - nat start = nat (stop + 1 - start)"
      using s0 ge by simp
    then show ?thesis
      using lt s0 s1 ge w2 by (simp add: U slice_range_def)
  qed
qed

text \<open>The tokens and next tokens of the worked example.\<close>

lemma Atoi_3: "Atoi ''3'' = Some 3" "Atoi ''6'' = Some 6" "Atoi ''9'' = Some 9" "Atoi ''-1'' = Some (-1)"
  by (simp_all add: Atoi_def is_digit_def)

lemma Itoa_3: "Itoa 3 = ''3''" by code_simp
lemma Itoa_6: "Itoa 6 = ''6''" by code_simp
lemma Itoa_9: "Itoa 9 = ''9''" by code_simp

text \<open>A page of at most three entries out of ten disks.\<close>

lemma ListVolumes_three_of_ten:
  assumes g: "getAllFCDs B s = (disks, s')"
    and l: "int (length disks) = 10"
    and tok: "(if tok \<noteq> [] then Atoi tok else Some 0) = Some start"
    and s0: "0 \<le> start" and s1: "start \<le> 10"
    and pg: "take (nat (start + 2 + 1 - start)) (drop (nat start) disks) = page"
    and nt: "(if start + 2 < 10 then Itoa (start + 2 + 1) else []) = nextToken"
  shows "ListVolumes K B \<lparr>StartingToken = tok, MaxEntries = 3\<rparr> (s, tr) =
           (Return (Some \<lparr>Entries = map (ListVolumes_entry K B) page, NextToken = nextToken\<rparr>)
              None, (s', tr @ [Call_getAllFCDs disks]))"
proof -
  have g': "getAllFCDs B (fst (s, tr)) = (disks, s')"
    using g by simp
  have 1: "int (length disks) < 2 ^ 62" unfolding l by simp
  have 2: "start \<le> int (length disks)" unfolding l by (rule s1)
  have 3: "0 \<le> sint (3::32 word)" by simp
  have 4: "start + 2 = (if sint (3::32 word) = 0 \<or> int (length disks) \<le> sint (3::32 word)
                        then int (length disks) else start + sint (3::32 word) - 1)"
    unfolding l by simp
  show ?thesis
    using ListVolumes_page [OF g' 1 tok s0 2 3 4, of K]
    unfolding pg l nt by simp
qed

text \<open>
  C1 (amended).  Let \<open>start\<close> be the offset the token denotes (0 for the empty token), with
  \<open>0 \<le> start \<le> total\<close>, and let \<open>maxEntries\<close> be non-negative.  Then \<open>stop\<close> is the total
  when \<open>maxEntries\<close> is zero or the total does not exceed \<open>maxEntries\<close>, else
  \<open>start + maxEntries - 1\<close>; the page holds the disks at the indices from \<open>start\<close> to \<open>stop\<close>
  (as far as the list reaches), and the next token is \<open>stop + 1\<close> exactly when \<open>stop\<close> is
  below the total.  Over any ten disks and with \<open>maxEntries = 3\<close>, the tokens \<open>""\<close>, \<open>"3"\<close>,
  \<open>"6"\<close> and \<open>"9"\<close> give the pages 0..2, 3..5, 6..8 and 9 with the next tokens \<open>"3"\<close>, \<open>"6"\<close>,
  \<open>"9"\<close> and none.
\<close>

theorem ListVolumes_pagination:
  assumes g: "getAllFCDs B s = (disks, s')"
  shows
    "(int (length disks) < 2 ^ 62 \<and> (if tok \<noteq> [] then Atoi tok else Some 0) = Some start
        \<and> 0 \<le> start \<and> start \<le> int (length disks) \<and> 0 \<le> sint maxEntries
        \<and> stop = (if sint maxEntries = 0 \<or> int (length disks) \<le> sint maxEntries
                   then int (length disks) else start + sint maxEntries - 1)
      \<longrightarrow> ListVolumes K B \<lparr>StartingToken = tok, MaxEntries = maxEntries\<rparr> (s, tr) =
            (Return (Some \<lparr>Entries = map (ListVolumes_entry K B)
                                        (take (nat (stop + 1 - start)) (drop (nat start) disks)),
                           NextToken = (if stop < int (length disks) then Itoa (stop + 1) else [])\<rparr>)
               None,
             (s', tr @ [Call_getAllFCDs disks])))
     \<and> (disks = [d0, d1, d2, d3, d4, d5, d6, d7, d8, d9]
      \<longrightarrow> ListVolumes K B \<lparr>StartingToken = [], MaxEntries = 3\<rparr> (s, tr) =
            (Return (Some \<lparr>Entries = map (ListVolumes_entry K B) [d0, d1, d2],
                           NextToken = ''3''\<rparr>) None, (s', tr @ [Call_getAllFCDs disks]))
        \<and> ListVolumes K B \<lparr>StartingToken = ''3'', MaxEntries = 3\<rparr> (s, tr) =
            (Return (Some \<lparr>Entries = map (ListVolumes_entry K B) [d3, d4, d5],
                           NextToken = ''6''\<rparr>) None, (s', tr @ [Call_getAllFCDs disks]))
        \<and> ListVolumes K B \<lparr>StartingToken = ''6'', MaxEntries = 3\<rparr> (s, tr) =
            (Return (Some \<lparr>Entries = map (ListVolumes_entry K B) [d6, d7, d8],
                           NextToken = ''9''\<rparr>) None, (s', tr @ [Call_getAllFCDs disks]))
        \<and> ListVolumes K B \<lparr>StartingToken = ''9'', MaxEntries = 3\<rparr> (s, tr) =
            (Return (Some \<lparr>Entries = map (ListVolumes_entry K B) [d9],
                           NextToken = []\<rparr>) None, (s', tr @ [Call_getAllFCDs disks])))"
    (is "(?G \<longrightarrow> ?L) \<and> (?D \<longrightarrow> ?P0 \<and> ?P3 \<and> ?P6 \<and> ?P9)")
proof (intro conjI impI)
  assume ?G
  then show ?L
    using ListVolumes_page [of B "(s, tr)" disks s' tok start maxEntries stop K] g by simp
next
  assume d: ?D
  then have l: "int (length disks) = 10" by simp
  show ?P0
    by (rule ListVolumes_three_of_ten [OF g l, where start = 0]) (simp_all add: d Itoa_3)
  show ?P3
    by (rule ListVolumes_three_of_ten [OF g l, where start = 3]) (simp_all add: d Itoa_6 Atoi_3)
  show ?P6
    by (rule ListVolumes_three_of_ten [OF g l, where start = 6]) (simp_all add: d Itoa_9 Atoi_3)
  show ?P9
    by (rule ListVolumes_three_of_ten [OF g l, where start = 9]) (simp_all add: d Atoi_3)
qed

text \<open>The theorem on the small platform holding ten disks: the page after the token \<open>"4"\<close>
  with two entries at most, and the last page of the worked example.\<close>

theorem ListVolumes_pagination_witness:
  "ListVolumes ex_constants ex_backend \<lparr>StartingToken = ''4'', MaxEntries = 2\<rparr> (ex_ten, []) =
     (Return (Some \<lparr>Entries = map (ListVolumes_entry ex_constants ex_backend)
                                 [ex_d ''disk4'', ex_d ''disk5''],
                    NextToken = ''6''\<rparr>) None, (ex_ten, [Call_getAllFCDs ex_ten]))
   \<and> ListVolumes ex_constants ex_backend \<lparr>StartingToken = ''9'', MaxEntries = 3\<rparr> (ex_ten, []) =
     (Return (Some \<lparr>Entries = map (ListVolumes_entry ex_constants ex_backend) [ex_d ''disk9''],
                    NextToken = []\<rparr>) None, (ex_ten, [Call_getAllFCDs ex_ten]))"
proof -
  have g: "getAllFCDs ex_backend ex_ten = (ex_ten, ex_ten)"
    by (simp add: ex_backend_def)
  have a: "Atoi ''4'' = Some 4" by (simp add: Atoi_def is_digit_def)
  have l: "int (length ex_ten) = 10" by (simp add: ex_ten_def)
  have t: "take (nat (5 + 1 - 4)) (drop (nat 4) ex_ten) = [ex_d ''disk4'', ex_d ''disk5'']"
    by (simp add: ex_ten_def)
  have e: "ex_ten = [ex_d ''disk0'', ex_d ''disk1'', ex_d ''disk2'', ex_d ''disk3'', ex_d ''disk4'',
      ex_d ''disk5'', ex_d ''disk6'', ex_d ''disk7'', ex_d ''disk8'', ex_d ''disk9'']"
    by (simp add: ex_ten_def)
  have i: "Itoa (5 + 1) = ''6''" using Itoa_6 by simp
  show ?thesis
    using ListVolumes_pagination [OF g, of "''4''" 4 2 5 ex_constants "[]"
        "ex_d ''disk0''" "ex_d ''disk1''" "ex_d ''disk2''" "ex_d ''disk3''" "ex_d ''disk4''"
        "ex_d ''disk5''" "ex_d ''disk6''" "ex_d ''disk7''" "ex_d ''disk8''" "ex_d ''disk9''"]
    unfolding l t i using a e by simp
qed

text \<open>
  C1 as stated fails where the total equals \<open>maxEntries\<close>: of three disks listed with
  \<open>maxEntries = 3\<close> the code returns all three and no next token, whereas the formula of the
  specification gives \<open>stop = 2\<close> and the next token \<open>"3"\<close>.
\<close>

theorem ListVolumes_spec_formula_counterexample:
  "fst (ListVolumes ex_constants ex_backend \<lparr>StartingToken = [], MaxEntries = 3\<rparr> (ex_three, [])) =
     Return (Some \<lparr>Entries = map (ListVolumes_entry ex_constants ex_backend) ex_three,
                   NextToken = []\<rparr>) None
   \<and> spec_NextToken 0 (int (length ex_three)) 3 = ''3''"
proof -
  have g: "getAllFCDs ex_backend (fst (ex_three, [])) = (ex_three, ex_three)"
    by (simp add: ex_backend_def)
  have l: "int (length ex_three) = 3" by (simp add: ex_three_def)
  have 1: "int (length ex_three) < 2 ^ 62" unfolding l by simp
  have 2: "(if [] \<noteq> [] then Atoi [] else Some 0) = Some 0" by simp
  have 3: "(0::int) \<le> int (length ex_three)" by simp
  have 4: "0 \<le> sint (3::32 word)" by simp
  have 5: "(3::int) = (if sint (3::32 word) = 0 \<or> int (length ex_three) \<le> sint (3::32 word)
                       then int (length ex_three) else 0 + sint (3::32 word) - 1)"
    unfolding l by simp
  have 6: "take (nat (3 + 1 - 0)) (drop (nat 0) ex_three) = ex_three"
    by (simp add: ex_three_def)
  have "ListVolumes ex_constants ex_backend \<lparr>StartingToken = [], MaxEntries = 3\<rparr> (ex_three, []) =
     (Return (Some \<lparr>Entries = map (ListVolumes_entry ex_constants ex_backend) ex_three,
                   NextToken = []\<rparr>) None, (ex_three, [Call_getAllFCDs ex_three]))"
    using ListVolumes_page [OF g 1 2 order_refl 3 4 5, of ex_constants]
    unfolding 6 l by simp
  moreover have "spec_NextToken 0 (int (length ex_three)) 3 = ''3''"
    unfolding l by (simp add: spec_NextToken_def spec_stop_def Itoa_3)
  ultimately show ?thesis by simp
qed

text \<open>
  C9.  A token that parses as a negative integer, such as \<open>"-1"\<close>, passes the numeric check
  and the check of the start against the total; the slice expression then panics, so the
  call returns neither an error nor a page.
\<close>

theorem ListVolumes_negative_token_panics:
  assumes g: "getAllFCDs B s = (disks, s')"
  shows "Atoi ''-1'' = Some (- 1)
   \<and> (Atoi tok = Some start \<and> start < 0
      \<longrightarrow> ListVolumes K B \<lparr>StartingToken = tok, MaxEntries = maxEntries\<rparr> (s, tr) =
            (Panic, (s', tr @ [Call_getAllFCDs disks])))"
proof -
  have "ListVolumes K B \<lparr>StartingToken = tok, MaxEntries = maxEntries\<rparr> (s, tr) =
            (Panic, (s', tr @ [Call_getAllFCDs disks]))"
    if a: "Atoi tok = Some start" and n: "start < 0"
  proof -
    have g': "getAllFCDs B (fst (s, tr)) = (disks, s')"
      using g by simp
    from a have "tok \<noteq> []" by (auto simp: Atoi_Nil)
    with a have t: "(if tok \<noteq> [] then Atoi tok else Some 0) = Some start" by simp
    show ?thesis
      using n by (simp add: ListVolumes_unfold [OF g' t] Let_def slice_from_def slice_range_def)
  qed
  then show ?thesis by (simp add: Atoi_3)
qed

text \<open>The token \<open>"-1"\<close> on the small platform holding ten disks.\<close>

theorem ListVolumes_negative_token_panics_witness:
  "ListVolumes ex_constants ex_backend \<lparr>StartingToken = ''-1'', MaxEntries = 3\<rparr> (ex_ten, []) =
     (Panic, (ex_ten, [Call_getAllFCDs ex_ten]))"
proof -
  have g: "getAllFCDs ex_backend ex_ten = (ex_ten, ex_ten)"
    by (simp add: ex_backend_def)
  show ?thesis
    using ListVolumes_negative_token_panics [OF g, of "''-1''" "- 1" ex_constants 3 "[]"]
    by simp
qed

section \<open>Validation, resolution by id, and the operations without a body\<close>

text \<open>
  C2 (amended).  Every failure of the validation of the input carries the code \<open>Internal\<close>:
  CreateVolume with nil parameters, an empty name, or a missing (or empty) parent type or
  parent name; DeleteVolume with an empty volume id; ControllerPublishVolume and
  ControllerUnpublishVolume with an empty volume id or node id; ListVolumes with a starting
  token that \<^verbatim>\<open>Atoi\<close> rejects.  But for ListVolumes, which has read the disks by then, no
  collaborator is called.
\<close>

theorem validation_failures_are_Internal:
  "((cv_Parameters req = None \<or> cv_Name req = []
       \<or> (\<exists>params. cv_Parameters req = Some params
             \<and> (lookup params (AttributeFirstClassDiskParentType K) = []
                  \<or> lookup params (AttributeFirstClassDiskParentName K) = [])))
      \<longrightarrow> CreateVolume K B cfg req w = (Return None (Some (StatusError Internal)), w))
   \<and> (dv_VolumeId dreq = []
      \<longrightarrow> DeleteVolume K B dreq w = (Return None (Some (StatusError Internal)), w))
   \<and> (cp_VolumeId preq = [] \<or> cp_NodeId preq = []
      \<longrightarrow> ControllerPublishVolume K B preq w = (Return None (Some (StatusError Internal)), w))
   \<and> (cu_VolumeId ureq = [] \<or> cu_NodeId ureq = []
      \<longrightarrow> ControllerUnpublishVolume K B ureq w = (Return None (Some (StatusError Internal)), w))
   \<and> (StartingToken lreq \<noteq> [] \<and> Atoi (StartingToken lreq) = None
      \<longrightarrow> fst (ListVolumes K B lreq w) = Return None (Some (StatusError Internal)))"
proof (intro conjI impI)
  assume "cv_Parameters req = None \<or> cv_Name req = []
       \<or> (\<exists>params. cv_Parameters req = Some params
             \<and> (lookup params (AttributeFirstClassDiskParentType K) = []
                  \<or> lookup params (AttributeFirstClassDiskParentName K) = []))"
  then show "CreateVolume K B cfg req w = (Return None (Some (StatusError Internal)), w)"
    by (auto simp: CreateVolume_def split: option.splits)
next
  assume "dv_VolumeId dreq = []"
  then show "DeleteVolume K B dreq w = (Return None (Some (StatusError Internal)), w)"
    by (simp add: DeleteVolume_def)
next
  assume "cp_VolumeId preq = [] \<or> cp_NodeId preq = []"
  then show "ControllerPublishVolume K B preq w = (Return None (Some (StatusError Internal)), w)"
    by (auto simp: ControllerPublishVolume_def)
next
  assume "cu_VolumeId ureq = [] \<or> cu_NodeId ureq = []"
  then show "ControllerUnpublishVolume K B ureq w = (Return None (Some (StatusError Internal)), w)"
    by (auto simp: ControllerUnpublishVolume_def)
next
  assume "StartingToken lreq \<noteq> [] \<and> Atoi (StartingToken lreq) = None"
  then show "fst (ListVolumes K B lreq w) = Return None (Some (StatusError Internal))"
    by (simp add: ListVolumes_def Let_def split: prod.splits)
qed

text \<open>
  One failing request for each of the five operations, on the small platform.
\<close>

theorem validation_failures_are_Internal_witness:
  "CreateVolume ex_constants ex_backend ex_config
      \<lparr>cv_Name = ''vol1'', cv_Parameters = None, cv_CapacityRange = None,
       cv_AccessibilityRequirements = None\<rparr> ([], [])
     = (Return None (Some (StatusError Internal)), ([], []))
   \<and> DeleteVolume ex_constants ex_backend \<lparr>dv_VolumeId = []\<rparr> ([], [])
     = (Return None (Some (StatusError Internal)), ([], []))
   \<and> ControllerPublishVolume ex_constants ex_backend \<lparr>cp_VolumeId = ''id-disk0'', cp_NodeId = []\<rparr> ([], [])
     = (Return None (Some (StatusError Internal)), ([], []))
   \<and> ControllerUnpublishVolume ex_constants ex_backend \<lparr>cu_VolumeId = [], cu_NodeId = ''node1''\<rparr> ([], [])
     = (Return None (Some (StatusError Internal)), ([], []))
   \<and> fst (ListVolumes ex_constants ex_backend \<lparr>StartingToken = ''abc'', MaxEntries = 3\<rparr> ([], []))
     = Return None (Some (StatusError Internal))"
proof -
  have a: "Atoi ''abc'' = None" by (simp add: Atoi_def is_digit_def)
  show ?thesis
    using validation_failures_are_Internal
      [of "\<lparr>cv_Name = ''vol1'', cv_Parameters = None, cv_CapacityRange = None,
            cv_AccessibilityRequirements = None\<rparr>" ex_constants ex_backend ex_config "([], [])"
          "\<lparr>dv_VolumeId = []\<rparr>"
          "\<lparr>cp_VolumeId = ''id-disk0'', cp_NodeId = []\<rparr>"
          "\<lparr>cu_VolumeId = [], cu_NodeId = ''node1''\<rparr>"
          "\<lparr>StartingToken = ''abc'', MaxEntries = 3\<rparr>"]
    by (simp add: a)
qed

text \<open>
  C2 as stated fails: CreateVolume with nil parameters returns the code \<open>Internal\<close>, not
  \<open>InvalidArgument\<close>.
\<close>

theorem validation_failure_not_InvalidArgument_counterexample:
  "fst (CreateVolume ex_constants ex_backend ex_config
      \<lparr>cv_Name = ''vol1'', cv_Parameters = None, cv_CapacityRange = None,
       cv_AccessibilityRequirements = None\<rparr> ([], []))
     = Return None (Some (StatusError Internal))
   \<and> fst (CreateVolume ex_constants ex_backend ex_config
      \<lparr>cv_Name = ''vol1'', cv_Parameters = None, cv_CapacityRange = None,
       cv_AccessibilityRequirements = None\<rparr> ([], []))
     \<noteq> Return None (Some (StatusError InvalidArgument))"
  by (simp add: CreateVolume_def)

text \<open>
  C4.  When the resolution of the volume id yields \<^verbatim>\<open>ErrNoDiskIDFound\<close>, DeleteVolume returns
  an empty response and no error, and ControllerPublishVolume returns the code \<open>Internal\<close>;
  in both the resolution is the only call made: nothing is deleted, nothing is attached.
\<close>

theorem not_found_delete_succeeds_publish_fails:
  "WhichVCandDCByFCDId B volumeId s = (Inl ErrNoDiskIDFound, s') \<and> volumeId \<noteq> [] \<and> nodeId \<noteq> []
   \<longrightarrow> DeleteVolume K B \<lparr>dv_VolumeId = volumeId\<rparr> (s, tr) =
         (Return (Some DeleteVolumeResponse) None,
          (s', tr @ [Call_WhichVCandDCByFCDId volumeId (Inl ErrNoDiskIDFound)]))
     \<and> ControllerPublishVolume K B \<lparr>cp_VolumeId = volumeId, cp_NodeId = nodeId\<rparr> (s, tr) =
         (Return None (Some (StatusError Internal)),
          (s', tr @ [Call_WhichVCandDCByFCDId volumeId (Inl ErrNoDiskIDFound)]))"
  by (simp add: DeleteVolume_def ControllerPublishVolume_def call_WhichVCandDCByFCDId_def)

text \<open>
  An id that no disk of the small platform carries.
\<close>

theorem not_found_delete_succeeds_publish_fails_witness:
  "DeleteVolume ex_constants ex_backend \<lparr>dv_VolumeId = ''id-gone''\<rparr> (ex_three, []) =
         (Return (Some DeleteVolumeResponse) None,
          (ex_three, [Call_WhichVCandDCByFCDId ''id-gone'' (Inl ErrNoDiskIDFound)]))
     \<and> ControllerPublishVolume ex_constants ex_backend
          \<lparr>cp_VolumeId = ''id-gone'', cp_NodeId = ''node1''\<rparr> (ex_three, []) =
         (Return None (Some (StatusError Internal)),
          (ex_three, [Call_WhichVCandDCByFCDId ''id-gone'' (Inl ErrNoDiskIDFound)]))"
proof -
  have "WhichVCandDCByFCDId ex_backend ''id-gone'' ex_three = (Inl ErrNoDiskIDFound, ex_three)"
    by (simp add: ex_backend_def ex_three_def ex_d_def ex_disk_def)
  then show ?thesis
    using not_found_delete_succeeds_publish_fails
      [of ex_backend "''id-gone''" ex_three ex_three "''node1''" ex_constants "[]"]
    by simp
qed

text \<open>
  C8 (amended).  ValidateVolumeCapabilities returns an empty response and no error.
  GetCapacity, CreateSnapshot, DeleteSnapshot and ListSnapshots return a nil response and a
  nil error.  None of the five calls a collaborator or changes the platform.
\<close>

theorem stub_operations:
  "ValidateVolumeCapabilities B req1 w = (Return (Some ValidateVolumeCapabilitiesResponse) None, w)
   \<and> GetCapacity B req2 w = (Return None None, w)
   \<and> CreateSnapshot B req3 w = (Return None None, w)
   \<and> DeleteSnapshot B req4 w = (Return None None, w)
   \<and> ListSnapshots B req5 w = (Return None None, w)"
  by (simp add: ValidateVolumeCapabilities_def GetCapacity_def CreateSnapshot_def
        DeleteSnapshot_def ListSnapshots_def)

text \<open>
  The five operations on the small platform.
\<close>

theorem stub_operations_witness:
  "ValidateVolumeCapabilities ex_backend () (ex_three, []) =
     (Return (Some ValidateVolumeCapabilitiesResponse) None, (ex_three, []))
   \<and> GetCapacity ex_backend () (ex_three, []) = (Return None None, (ex_three, []))
   \<and> CreateSnapshot ex_backend () (ex_three, []) = (Return None None, (ex_three, []))
   \<and> DeleteSnapshot ex_backend () (ex_three, []) = (Return None None, (ex_three, []))
   \<and> ListSnapshots ex_backend () (ex_three, []) = (Return None None, (ex_three, []))"
  using stub_operations [of ex_backend "()" "(ex_three, [])" "()" "()" "()" "()"] by simp

text \<open>
  C8 as stated fails: the response of GetCapacity is nil, and the snapshot operations
  return no error at all, so no "unimplemented" status either.
\<close>

theorem stub_operations_counterexample:
  "returned (fst (GetCapacity ex_backend () (ex_three, []))) = None
   \<and> returned_err (fst (CreateSnapshot ex_backend () (ex_three, []))) = None
   \<and> returned_err (fst (CreateSnapshot ex_backend () (ex_three, []))) \<noteq> Some (StatusError Unimplemented)
   \<and> returned_err (fst (DeleteSnapshot ex_backend () (ex_three, []))) = None
   \<and> returned_err (fst (ListSnapshots ex_backend () (ex_three, []))) = None"
  by (simp add: GetCapacity_def CreateSnapshot_def DeleteSnapshot_def ListSnapshots_def)

section \<open>CreateVolume\<close>

text \<open>The loop over the topologies stops at the first success.\<close>

lemma range_topologies_first_success:
  assumes "range_topologies K B cfg cur ts (s, tr) = (r, w')" and "ts \<noteq> []"
  shows "\<exists>calls. snd w' = tr @ calls \<and> first_success_wins K cfg ts calls r"
  using assms
proof (induction ts arbitrary: cur s tr)
  case Nil
  then show ?case by simp
next
  case (Cons t ts)
  obtain res s1 where W: "WhichVCandDCByZone B (Labels_Zone cfg) (Labels_Region cfg)
      (lookup t (LabelZoneFailureDomain K)) (lookup t (LabelZoneRegion K)) s = (res, s1)"
    by (cases "WhichVCandDCByZone B (Labels_Zone cfg) (Labels_Region cfg)
      (lookup t (LabelZoneFailureDomain K)) (lookup t (LabelZoneRegion K)) s")
  let ?ev = "Call_WhichVCandDCByZone (Labels_Zone cfg) (Labels_Region cfg)
      (lookup t (LabelZoneFailureDomain K)) (lookup t (LabelZoneRegion K)) res"
  have C: "call_WhichVCandDCByZone B (Labels_Zone cfg) (Labels_Region cfg)
      (lookup t (LabelZoneFailureDomain K)) (lookup t (LabelZoneRegion K)) (s, tr)
      = (res, (s1, tr @ [?ev]))"
    by (simp add: call_WhichVCandDCByZone_def W)
  show ?case
  proof (cases res)
    case (Inr di)
    with Cons.prems C have "r = Some (Inr di)" "w' = (s1, tr @ [?ev])"
      by (simp_all add: Let_def)
    then have "snd w' = tr @ [?ev] \<and> first_success_wins K cfg (t # ts) [?ev] r"
      by (simp add: first_success_wins_def segment_args_def Inr)
    then show ?thesis by blast
  next
    case (Inl e)
    with Cons.prems C have R: "range_topologies K B cfg (Some (Inl e)) ts (s1, tr @ [?ev]) = (r, w')"
      by (simp add: Let_def)
    show ?thesis
    proof (cases "ts = []")
      case True
      with R have "r = Some (Inl e)" "w' = (s1, tr @ [?ev])" by simp_all
      then have "snd w' = tr @ [?ev] \<and> first_success_wins K cfg (t # ts) [?ev] r"
        by (simp add: first_success_wins_def segment_args_def Inl True)
      then show ?thesis by blast
    next
      case False
      from Cons.IH [OF R False] obtain calls where
        c: "snd w' = (tr @ [?ev]) @ calls" and f: "first_success_wins K cfg ts calls r"
        by blast
      from f have ne: "calls \<noteq> []" by (simp add: first_success_wins_def)
      have "first_success_wins K cfg (t # ts) (?ev # calls) r"
        using f ne by (simp add: first_success_wins_def segment_args_def Inl)
      with c have "snd w' = tr @ (?ev # calls) \<and> first_success_wins K cfg (t # ts) (?ev # calls) r"
        by simp
      then show ?thesis by blast
    qed
  qed
qed


text \<open>CreateVolume on a request that passes the validation, when no instance was resolved.\<close>

lemma CreateVolume_no_instance:
  assumes "cv_Parameters req = Some params" and "cv_Name req \<noteq> []"
    and "lookup params (AttributeFirstClassDiskParentType K) \<noteq> []"
    and "lookup params (AttributeFirstClassDiskParentName K) \<noteq> []"
    and "CreateVolume_discover K B cfg (cv_AccessibilityRequirements req)
           (lookup params (AttributeFirstClassDiskZone K))
           (lookup params (AttributeFirstClassDiskRegion K)) w = (r, w1)"
  shows "r = Some (Inl e) \<Longrightarrow>
           CreateVolume K B cfg req w = (Return None (Some (StatusError Internal)), w1)"
    and "r = None \<Longrightarrow> CreateVolume K B cfg req w = (Panic, w1)"
  using assms by (simp_all add: CreateVolume_def Let_def)

text \<open>
  CreateVolume on a request that passes the validation, once an instance is resolved: the
  outcome and the calls, given the results of the lookup, of the creation and of the
  read-back.
\<close>

lemma CreateVolume_instance:
  assumes "cv_Parameters req = Some params" and "cv_Name req \<noteq> []"
    and "lookup params (AttributeFirstClassDiskParentType K) \<noteq> []"
    and "lookup params (AttributeFirstClassDiskParentName K) \<noteq> []"
    and "CreateVolume_discover K B cfg (cv_AccessibilityRequirements req)
           (lookup params (AttributeFirstClassDiskZone K))
           (lookup params (AttributeFirstClassDiskRegion K)) w = (Some (Inr di), (s1, tr1))"
    and "GetFirstClassDisk B (zdi_DataCenter di)
           (lookup params (AttributeFirstClassDiskParentName K))
           (CreateVolume_datastoreType K params) (cv_Name req) FindFCDByName s1 = (found, s2)"
    and "CreateFirstClassDisk B (zdi_DataCenter di)
           (lookup params (AttributeFirstClassDiskParentName K))
           (CreateVolume_datastoreType K params) (cv_Name req) (CreateVolume_volSizeMB req) s2
           = (created, s3)"
    and "GetFirstClassDisk B (zdi_DataCenter di)
           (lookup params (AttributeFirstClassDiskParentName K))
           (CreateVolume_datastoreType K params) (cv_Name req) FindFCDByName s3 = (readBack, s4)"
    and "get1 = Call_GetFirstClassDisk (zdi_DataCenter di)
           (lookup params (AttributeFirstClassDiskParentName K))
           (CreateVolume_datastoreType K params) (cv_Name req) FindFCDByName found"
    and "create = Call_CreateFirstClassDisk (zdi_DataCenter di)
           (lookup params (AttributeFirstClassDiskParentName K))
           (CreateVolume_datastoreType K params) (cv_Name req) (CreateVolume_volSizeMB req) created"
    and "get2 = Call_GetFirstClassDisk (zdi_DataCenter di)
           (lookup params (AttributeFirstClassDiskParentName K))
           (CreateVolume_datastoreType K params) (cv_Name req) FindFCDByName readBack"
  shows "CreateVolume K B cfg req w =
     (case found of
        Inr d \<Rightarrow>
          (if Config_CapacityInMB d \<noteq> CreateVolume_volSizeMB req
           then Return None (Some (StatusError AlreadyExists))
           else Return (Some (CreateVolume_response K di d)) None,
           (s2, tr1 @ [get1]))
      | Inl _ \<Rightarrow>
          (case created of
             Some _ \<Rightarrow> (Return None (Some (StatusError Internal)), (s3, tr1 @ [get1, create]))
           | None \<Rightarrow>
               (case readBack of
                  Inl _ \<Rightarrow> Return None (Some (StatusError Internal))
                | Inr d \<Rightarrow> Return (Some (CreateVolume_response K di d)) None,
                (s4, tr1 @ [get1, create, get2]))))"
  using assms
  by (auto simp: CreateVolume_def Let_def call_GetFirstClassDisk_def call_CreateFirstClassDisk_def
        split: sum.splits option.splits)

text \<open>
  The calls to the datacenter driver once an instance is resolved: a lookup by name, then,
  if the lookup failed, a creation, then, if the creation succeeded, a second lookup.  All
  of them name the pool by the type computed from the parent type parameter.
\<close>

lemma CreateVolume_driver_calls:
  assumes "cv_Parameters req = Some params" and "cv_Name req \<noteq> []"
    and "lookup params (AttributeFirstClassDiskParentType K) \<noteq> []"
    and "lookup params (AttributeFirstClassDiskParentName K) \<noteq> []"
    and "CreateVolume_discover K B cfg (cv_AccessibilityRequirements req)
           (lookup params (AttributeFirstClassDiskZone K))
           (lookup params (AttributeFirstClassDiskRegion K)) w = (Some (Inr di), (s1, tr1))"
    and "CreateVolume_datastoreType K params = datastoreType"
    and "GetFirstClassDisk B (zdi_DataCenter di)
           (lookup params (AttributeFirstClassDiskParentName K))
           datastoreType (cv_Name req) FindFCDByName s1 = (found, s2)"
    and "CreateFirstClassDisk B (zdi_DataCenter di)
           (lookup params (AttributeFirstClassDiskParentName K))
           datastoreType (cv_Name req) (CreateVolume_volSizeMB req) s2 = (created, s3)"
    and "GetFirstClassDisk B (zdi_DataCenter di)
           (lookup params (AttributeFirstClassDiskParentName K))
           datastoreType (cv_Name req) FindFCDByName s3 = (readBack, s4)"
  shows "snd (snd (CreateVolume K B cfg req w)) =
         tr1 @ Call_GetFirstClassDisk (zdi_DataCenter di)
                 (lookup params (AttributeFirstClassDiskParentName K))
                 datastoreType (cv_Name req) FindFCDByName found
             # (case found of
                  Inr d \<Rightarrow> []
                | Inl e \<Rightarrow>
                    Call_CreateFirstClassDisk (zdi_DataCenter di)
                      (lookup params (AttributeFirstClassDiskParentName K))
                      datastoreType (cv_Name req) (CreateVolume_volSizeMB req) created
                    # (case created of
                         Some e \<Rightarrow> []
                       | None \<Rightarrow>
                           [Call_GetFirstClassDisk (zdi_DataCenter di)
                              (lookup params (AttributeFirstClassDiskParentName K))
                              datastoreType (cv_Name req) FindFCDByName readBack]))"
proof -
  note I = CreateVolume_instance [OF assms(1-4), of B cfg w di s1 tr1,
      unfolded assms(6), OF assms(5) assms(7) assms(8) assms(9) refl refl refl]
  show ?thesis
    by (auto simp: I split: sum.splits option.splits)
qed

text \<open>
  The resolution of the instance calls nothing but \<^verbatim>\<open>WhichVCandDCByZone\<close>: it changes no disk.
\<close>

lemma range_topologies_calls:
  "range_topologies K B cfg cur ts (s, tr) = (r, w') \<Longrightarrow>
     \<exists>calls. snd w' = tr @ calls \<and> filter is_mutating_call calls = []"
proof (induction ts arbitrary: cur s tr)
  case Nil
  then show ?case by auto
next
  case (Cons t ts)
  obtain res s1 where W: "WhichVCandDCByZone B (Labels_Zone cfg) (Labels_Region cfg)
      (lookup t (LabelZoneFailureDomain K)) (lookup t (LabelZoneRegion K)) s = (res, s1)"
    by (cases "WhichVCandDCByZone B (Labels_Zone cfg) (Labels_Region cfg)
      (lookup t (LabelZoneFailureDomain K)) (lookup t (LabelZoneRegion K)) s")
  let ?ev = "Call_WhichVCandDCByZone (Labels_Zone cfg) (Labels_Region cfg)
      (lookup t (LabelZoneFailureDomain K)) (lookup t (LabelZoneRegion K)) res"
  show ?case
  proof (cases res)
    case (Inr di)
    with Cons.prems W have "snd w' = tr @ [?ev]"
      by (auto simp: Let_def call_WhichVCandDCByZone_def)
    then show ?thesis by auto
  next
    case (Inl e)
    with Cons.prems W have "range_topologies K B cfg (Some (Inl e)) ts (s1, tr @ [?ev]) = (r, w')"
      by (simp add: Let_def call_WhichVCandDCByZone_def)
    from Cons.IH [OF this] obtain calls where
      "snd w' = (tr @ [?ev]) @ calls" "filter is_mutating_call calls = []"
      by blast
    then have "snd w' = tr @ (?ev # calls) \<and> filter is_mutating_call (?ev # calls) = []"
      by simp
    then show ?thesis by blast
  qed
qed

lemma CreateVolume_discover_calls:
  assumes "CreateVolume_discover K B cfg accessibility zone region (s, tr) = (r, w1)"
  shows "filter is_mutating_call (snd w1) = filter is_mutating_call tr"
proof -
  have "\<exists>calls. snd w1 = tr @ calls \<and> filter is_mutating_call calls = []"
    using assms
    by (auto simp: CreateVolume_discover_def call_WhichVCandDCByZone_def
          split: option.splits if_splits prod.splits dest: range_topologies_calls)
  then show ?thesis by auto
qed

text \<open>After the resolution of the instance CreateVolume resolves no further zone.\<close>

lemma CreateVolume_zone_calls:
  assumes "cv_Parameters req = Some params" and "cv_Name req \<noteq> []"
    and "lookup params (AttributeFirstClassDiskParentType K) \<noteq> []"
    and "lookup params (AttributeFirstClassDiskParentName K) \<noteq> []"
    and D: "CreateVolume_discover K B cfg (cv_AccessibilityRequirements req)
           (lookup params (AttributeFirstClassDiskZone K))
           (lookup params (AttributeFirstClassDiskRegion K)) w = (r, w1)"
  shows "filter is_zone_call (snd (snd (CreateVolume K B cfg req w))) = filter is_zone_call (snd w1)"
proof (cases r)
  case None
  then show ?thesis
    using CreateVolume_no_instance(2) [OF assms] by simp
next
  case (Some x)
  show ?thesis
  proof (cases x)
    case (Inl e)
    with Some show ?thesis
      using CreateVolume_no_instance(1) [OF assms] by simp
  next
    case (Inr di)
    obtain found s2 where G: "GetFirstClassDisk B (zdi_DataCenter di)
           (lookup params (AttributeFirstClassDiskParentName K))
           (CreateVolume_datastoreType K params) (cv_Name req) FindFCDByName (fst w1) = (found, s2)"
      by (metis surj_pair)
    obtain created s3 where C: "CreateFirstClassDisk B (zdi_DataCenter di)
           (lookup params (AttributeFirstClassDiskParentName K))
           (CreateVolume_datastoreType K params) (cv_Name req) (CreateVolume_volSizeMB req) s2
           = (created, s3)"
      by (metis surj_pair)
    obtain readBack s4 where G2: "GetFirstClassDisk B (zdi_DataCenter di)
           (lookup params (AttributeFirstClassDiskParentName K))
           (CreateVolume_datastoreType K params) (cv_Name req) FindFCDByName s3 = (readBack, s4)"
      by (metis surj_pair)
    have D': "CreateVolume_discover K B cfg (cv_AccessibilityRequirements req)
           (lookup params (AttributeFirstClassDiskZone K))
           (lookup params (AttributeFirstClassDiskRegion K)) w = (Some (Inr di), (fst w1, snd w1))"
      using D Some Inr by simp
    show ?thesis
      by (simp add: CreateVolume_driver_calls [OF assms(1-4) D' refl G C G2] is_zone_call_def
            split: sum.splits option.splits)
  qed
qed

text \<open>
  C6.  On a request that passes the validation: with a requisite list that holds topologies,
  the calls made are for the requisite topologies in list order, up to and including the
  first one that resolves; that one's result is the result of the resolution and nothing
  further is attempted, so that no preferred topology is ever tried.  With a nil requisite
  list and a preferred list that holds topologies, the same holds of the preferred list.
  With no accessibility requirements, or with both lists nil, the zone and the region of the
  parameters are resolved in one call.  CreateVolume makes no other call that resolves a
  zone; it fails with \<open>Internal\<close> when the resolution ends on an error, and otherwise looks
  the disk up in the datacenter of the instance resolved.
\<close>

theorem CreateVolume_zone_resolution:
  assumes V: "cv_Parameters req = Some params" "cv_Name req \<noteq> []"
      "lookup params (AttributeFirstClassDiskParentType K) \<noteq> []"
      "lookup params (AttributeFirstClassDiskParentName K) \<noteq> []"
    and Z: "zone = lookup params (AttributeFirstClassDiskZone K)"
      "region = lookup params (AttributeFirstClassDiskRegion K)"
    and D: "CreateVolume_discover K B cfg (cv_AccessibilityRequirements req) zone region (s, tr)
              = (r, w1)"
  shows
    "(cv_AccessibilityRequirements req = Some a \<and> Requisite a = Some ts \<and> ts \<noteq> []
        \<longrightarrow> take (length tr) (snd w1) = tr
            \<and> first_success_wins K cfg ts (drop (length tr) (snd w1)) r)
     \<and> (cv_AccessibilityRequirements req = Some a \<and> Requisite a = None
          \<and> Preferred a = Some ts \<and> ts \<noteq> []
        \<longrightarrow> take (length tr) (snd w1) = tr
            \<and> first_success_wins K cfg ts (drop (length tr) (snd w1)) r)
     \<and> (cv_AccessibilityRequirements req = None
          \<or> cv_AccessibilityRequirements req = Some a \<and> Requisite a = None \<and> Preferred a = None
        \<longrightarrow> r = Some (fst (WhichVCandDCByZone B (Labels_Zone cfg) (Labels_Region cfg) zone region s))
            \<and> w1 = (snd (WhichVCandDCByZone B (Labels_Zone cfg) (Labels_Region cfg) zone region s),
                    tr @ [Call_WhichVCandDCByZone (Labels_Zone cfg) (Labels_Region cfg) zone region
                            (fst (WhichVCandDCByZone B (Labels_Zone cfg) (Labels_Region cfg)
                                    zone region s))]))
     \<and> filter is_zone_call (snd (snd (CreateVolume K B cfg req (s, tr))))
         = filter is_zone_call (snd w1)
     \<and> (r = Some (Inl e)
        \<longrightarrow> CreateVolume K B cfg req (s, tr) = (Return None (Some (StatusError Internal)), w1))
     \<and> (r = Some (Inr di)
        \<longrightarrow> take 1 (drop (length (snd w1)) (snd (snd (CreateVolume K B cfg req (s, tr))))) =
              [Call_GetFirstClassDisk (zdi_DataCenter di)
                 (lookup params (AttributeFirstClassDiskParentName K))
                 (CreateVolume_datastoreType K params) (cv_Name req) FindFCDByName
                 (fst (GetFirstClassDisk B (zdi_DataCenter di)
                         (lookup params (AttributeFirstClassDiskParentName K))
                         (CreateVolume_datastoreType K params) (cv_Name req) FindFCDByName
                         (fst w1)))])"
    (is "?R \<and> ?P \<and> ?L \<and> ?F \<and> ?E \<and> ?U")
proof -
  note D' = D [unfolded Z]
  have R: ?R
  proof (intro impI)
    assume A: "cv_AccessibilityRequirements req = Some a \<and> Requisite a = Some ts \<and> ts \<noteq> []"
    with D have "range_topologies K B cfg None ts (s, tr) = (r, w1)"
      by (simp add: CreateVolume_discover_def)
    from range_topologies_first_success [OF this] A obtain calls where
      "snd w1 = tr @ calls" "first_success_wins K cfg ts calls r" by blast
    then show "take (length tr) (snd w1) = tr
        \<and> first_success_wins K cfg ts (drop (length tr) (snd w1)) r" by simp
  qed
  have P: ?P
  proof (intro impI)
    assume A: "cv_AccessibilityRequirements req = Some a \<and> Requisite a = None
          \<and> Preferred a = Some ts \<and> ts \<noteq> []"
    with D have "range_topologies K B cfg None ts (s, tr) = (r, w1)"
      by (simp add: CreateVolume_discover_def)
    from range_topologies_first_success [OF this] A obtain calls where
      "snd w1 = tr @ calls" "first_success_wins K cfg ts calls r" by blast
    then show "take (length tr) (snd w1) = tr
        \<and> first_success_wins K cfg ts (drop (length tr) (snd w1)) r" by simp
  qed
  have L: ?L
    using D
    by (auto simp: CreateVolume_discover_def call_WhichVCandDCByZone_def split: prod.splits)
  have F: ?F
    by (rule CreateVolume_zone_calls [OF V D'])
  have E: ?E
    using CreateVolume_no_instance(1) [OF V D'] by simp
  have U: ?U
  proof (intro impI)
    assume r: "r = Some (Inr di)"
    obtain found s2 where G: "GetFirstClassDisk B (zdi_DataCenter di)
           (lookup params (AttributeFirstClassDiskParentName K))
           (CreateVolume_datastoreType K params) (cv_Name req) FindFCDByName (fst w1) = (found, s2)"
      by (metis surj_pair)
    obtain created s3 where C: "CreateFirstClassDisk B (zdi_DataCenter di)
           (lookup params (AttributeFirstClassDiskParentName K))
           (CreateVolume_datastoreType K params) (cv_Name req) (CreateVolume_volSizeMB req) s2
           = (created, s3)"
      by (metis surj_pair)
    obtain readBack s4 where G2: "GetFirstClassDisk B (zdi_DataCenter di)
           (lookup params (AttributeFirstClassDiskParentName K))
           (CreateVolume_datastoreType K params) (cv_Name req) FindFCDByName s3 = (readBack, s4)"
      by (metis surj_pair)
    have D'': "CreateVolume_discover K B cfg (cv_AccessibilityRequirements req)
           (lookup params (AttributeFirstClassDiskZone K))
           (lookup params (AttributeFirstClassDiskRegion K)) (s, tr)
             = (Some (Inr di), (fst w1, snd w1))"
      using D' r by simp
    show "take 1 (drop (length (snd w1)) (snd (snd (CreateVolume K B cfg req (s, tr))))) =
              [Call_GetFirstClassDisk (zdi_DataCenter di)
                 (lookup params (AttributeFirstClassDiskParentName K))
                 (CreateVolume_datastoreType K params) (cv_Name req) FindFCDByName
                 (fst (GetFirstClassDisk B (zdi_DataCenter di)
                         (lookup params (AttributeFirstClassDiskParentName K))
                         (CreateVolume_datastoreType K params) (cv_Name req) FindFCDByName
                         (fst w1)))]"
      by (simp add: CreateVolume_driver_calls [OF V D'' refl G C G2] G)
  qed
  from R P L F E U show ?thesis by blast
qed


text \<open>
  C3.  On a request that passes the validation and for which an instance is resolved, let
  \<open>found\<close> be the result of the lookup by name in the pool.  If a disk is found and its
  capacity equals the size requested (in megabytes, after rounding), the response carries the
  id of that disk; if its capacity differs, the error is \<open>AlreadyExists\<close>; in both cases
  the lookup is the last call and no call that changes the platform is made.  If the lookup
  fails, exactly one creation is issued, for the name and the size requested, followed,
  when it succeeds, by the read-back by name.
\<close>

theorem CreateVolume_idempotent:
  assumes "cv_Parameters req = Some params" and "cv_Name req \<noteq> []"
    and "lookup params (AttributeFirstClassDiskParentType K) \<noteq> []"
    and "lookup params (AttributeFirstClassDiskParentName K) \<noteq> []"
    and D: "CreateVolume_discover K B cfg (cv_AccessibilityRequirements req)
           (lookup params (AttributeFirstClassDiskZone K))
           (lookup params (AttributeFirstClassDiskRegion K)) (s, tr) = (Some (Inr di), (s1, tr1))"
    and "GetFirstClassDisk B (zdi_DataCenter di)
           (lookup params (AttributeFirstClassDiskParentName K))
           (CreateVolume_datastoreType K params) (cv_Name req) FindFCDByName s1 = (found, s2)"
    and "CreateFirstClassDisk B (zdi_DataCenter di)
           (lookup params (AttributeFirstClassDiskParentName K))
           (CreateVolume_datastoreType K params) (cv_Name req) (CreateVolume_volSizeMB req) s2
           = (created, s3)"
    and "GetFirstClassDisk B (zdi_DataCenter di)
           (lookup params (AttributeFirstClassDiskParentName K))
           (CreateVolume_datastoreType K params) (cv_Name req) FindFCDByName s3 = (readBack, s4)"
    and "get1 = Call_GetFirstClassDisk (zdi_DataCenter di)
           (lookup params (AttributeFirstClassDiskParentName K))
           (CreateVolume_datastoreType K params) (cv_Name req) FindFCDByName found"
    and "create = Call_CreateFirstClassDisk (zdi_DataCenter di)
           (lookup params (AttributeFirstClassDiskParentName K))
           (CreateVolume_datastoreType K params) (cv_Name req) (CreateVolume_volSizeMB req) created"
    and "get2 = Call_GetFirstClassDisk (zdi_DataCenter di)
           (lookup params (AttributeFirstClassDiskParentName K))
           (CreateVolume_datastoreType K params) (cv_Name req) FindFCDByName readBack"
  shows
    "(found = Inr d \<and> Config_CapacityInMB d = CreateVolume_volSizeMB req
        \<longrightarrow> CreateVolume K B cfg req (s, tr) =
              (Return (Some (CreateVolume_response K di d)) None, (s2, tr1 @ [get1]))
            \<and> VolumeId (cv_Volume (CreateVolume_response K di d)) = Config_Id d
            \<and> filter is_mutating_call (tr1 @ [get1]) = filter is_mutating_call tr)
     \<and> (found = Inr d \<and> Config_CapacityInMB d \<noteq> CreateVolume_volSizeMB req
        \<longrightarrow> CreateVolume K B cfg req (s, tr) =
              (Return None (Some (StatusError AlreadyExists)), (s2, tr1 @ [get1]))
            \<and> filter is_mutating_call (tr1 @ [get1]) = filter is_mutating_call tr)
     \<and> (found = Inl e
        \<longrightarrow> snd (CreateVolume K B cfg req (s, tr)) =
              (if created = None then (s4, tr1 @ [get1, create, get2])
               else (s3, tr1 @ [get1, create]))
            \<and> filter is_mutating_call (snd (snd (CreateVolume K B cfg req (s, tr)))) =
                filter is_mutating_call tr @ [create])"
proof -
  note I = CreateVolume_instance [OF assms]
  have m: "filter is_mutating_call tr1 = filter is_mutating_call tr"
    using CreateVolume_discover_calls [OF D] by simp
  have g1: "\<not> is_mutating_call get1" and g2: "\<not> is_mutating_call get2"
    and c: "is_mutating_call create"
    using assms(9-11) by simp_all
  show ?thesis
    by (auto simp: I m g1 g2 c CreateVolume_response_def Let_def split: option.splits sum.splits)
qed

section \<open>The capacity of a new volume\<close>

text \<open>
  Go's quotient and remainder by a positive divisor, and the rounding: \<open>RoundUpSize\<close> is
  the least number of units that hold the size, for every 64-bit size.
\<close>

lemma go_quot_rem_nonneg:
  assumes "0 \<le> v" and "0 < a"
  shows "go_quot v a = v div a" and "go_rem v a = v mod a"
proof -
  show q: "go_quot v a = v div a"
    using assms by (cases "v = 0") (simp_all add: go_quot_def)
  show "go_rem v a = v mod a"
    unfolding go_rem_def q by (simp add: minus_mult_div_eq_mod)
qed

lemma go_quot_rem_neg:
  assumes "v < 0" and "0 < a"
  shows "go_quot v a = - ((- v) div a)" and "go_rem v a = - ((- v) mod a)"
proof -
  define q where "q = (- v) div a"
  define r where "r = (- v) mod a"
  have e: "- v = a * q + r" by (simp add: q_def r_def)
  show g: "go_quot v a = - ((- v) div a)"
    using assms by (simp add: go_quot_def)
  have "v - a * (- q) = - r"
    using e by (simp add: algebra_simps)
  then show "go_rem v a = - ((- v) mod a)"
    unfolding go_rem_def g q_def r_def .
qed

lemma RoundUpSize_least:
  assumes a: "1 < a" and lo: "- (2 ^ 63) \<le> v" and hi: "v < 2 ^ 63"
  shows "(RoundUpSize v a - 1) * a < v" and "v \<le> RoundUpSize v a * a"
proof -
  have a0: "0 < a" using a by simp
  have both: "(RoundUpSize v a - 1) * a < v \<and> v \<le> RoundUpSize v a * a"
  proof (cases "0 \<le> v")
    case True
    define q where "q = v div a"
    define r where "r = v mod a"
    have e: "v = q * a + r" by (simp add: q_def r_def)
    have m: "r < a" "0 \<le> r" using a0 by (simp_all add: r_def)
    have qr: "go_quot v a = q" "go_rem v a = r"
      using go_quot_rem_nonneg [OF True a0] by (simp_all add: q_def r_def)
    show ?thesis
    proof (cases "0 < r")
      case pos: True
      then have "0 < v" using True by (cases "v = 0") (simp_all add: r_def)
      then have "q < v" unfolding q_def using a by (rule int_div_less_self)
      moreover have "0 \<le> q" using True a0 by (simp add: q_def pos_imp_zdiv_nonneg_iff)
      ultimately have "wrap64 (q + 1) = q + 1"
        using hi by (intro wrap64_id) simp_all
      then have R: "RoundUpSize v a = q + 1"
        using pos by (simp add: RoundUpSize_def Let_def qr)
      have "(q + 1 - 1) * a < v" using e pos by simp
      moreover have "v \<le> (q + 1) * a" using e m by (simp add: algebra_simps)
      ultimately show ?thesis unfolding R by simp
    next
      case False
      with m have z: "r = 0" by simp
      then have R: "RoundUpSize v a = q"
        by (simp add: RoundUpSize_def Let_def qr)
      have "(q - 1) * a < v" using e z a0 by (simp add: algebra_simps)
      moreover have "v \<le> q * a" using e z by simp
      ultimately show ?thesis unfolding R by simp
    qed
  next
    case False
    then have n: "v < 0" by simp
    define q where "q = (- v) div a"
    define r where "r = (- v) mod a"
    have e: "- v = q * a + r" by (simp add: q_def r_def)
    have m: "r < a" "0 \<le> r" using a0 by (simp_all add: r_def)
    have qr: "go_quot v a = - q" "go_rem v a = - r"
      using go_quot_rem_neg [OF n a0] by (simp_all add: q_def r_def)
    have R: "RoundUpSize v a = - q"
      using m by (simp add: RoundUpSize_def Let_def qr)
    have "(- q - 1) * a < v" using e m by (simp add: algebra_simps)
    moreover have "v \<le> - q * a" using e m by (simp add: algebra_simps)
    ultimately show ?thesis unfolding R by simp
  qed
  from both show "(RoundUpSize v a - 1) * a < v" and "v \<le> RoundUpSize v a * a"
    by simp_all
qed
lemma GbInBytes_power: "GbInBytes = 2 ^ 30"
  by (simp add: GbInBytes_def)

lemma default_volSizeMB:
  "wrap64 (RoundUpSize (wrap64 (DefaultGbDiskSize * GbInBytes)) GbInBytes * 1024) = 10240"
  by (simp add: DefaultGbDiskSize_def GbInBytes_def wrap64_def RoundUpSize_def go_quot_def
        go_rem_def Let_def)

text \<open>
  C5.  Without a capacity range, or with zero required bytes, the size is 10 GiB, that is
  10240 MB.  Otherwise, for every required byte count, the size is a whole number \<open>g\<close> of
  gibibytes expressed in megabytes, where \<open>g\<close> is the least number of gibibytes that hold
  the byte count.  One byte gives 1024 MB.
\<close>

theorem CreateVolume_capacity:
  "(cv_CapacityRange req = None \<or> cv_CapacityRange req = Some cr \<and> RequiredBytes cr = 0
      \<longrightarrow> CreateVolume_volSizeMB req = 10 * 1024)
   \<and> (cv_CapacityRange req = Some cr \<and> RequiredBytes cr \<noteq> 0
      \<longrightarrow> CreateVolume_volSizeMB req mod 1024 = 0
          \<and> (CreateVolume_volSizeMB req div 1024 - 1) * 2 ^ 30 < sint (RequiredBytes cr)
          \<and> sint (RequiredBytes cr) \<le> (CreateVolume_volSizeMB req div 1024) * 2 ^ 30)
   \<and> (cv_CapacityRange req = Some cr \<and> RequiredBytes cr = 1
      \<longrightarrow> CreateVolume_volSizeMB req = 1024)"
proof (intro conjI impI)
  assume "cv_CapacityRange req = None \<or> cv_CapacityRange req = Some cr \<and> RequiredBytes cr = 0"
  then show "CreateVolume_volSizeMB req = 10 * 1024"
    by (auto simp: CreateVolume_volSizeMB_def Let_def default_volSizeMB)
next
  assume A: "cv_CapacityRange req = Some cr \<and> RequiredBytes cr \<noteq> 0"
  define b where "b = sint (RequiredBytes cr)"
  define g where "g = RoundUpSize b (2 ^ 30)"
  have lo: "- (2 ^ 63) \<le> b"
    unfolding b_def using sint_ge [of "RequiredBytes cr"] by simp
  have hi: "b < 2 ^ 63"
    unfolding b_def using sint_lt [of "RequiredBytes cr"] by simp
  have l: "(g - 1) * 2 ^ 30 < b" and u: "b \<le> g * 2 ^ 30"
    unfolding g_def by (rule RoundUpSize_least [OF _ lo hi], simp)+
  have g1: "g \<le> 2 ^ 33"
  proof (rule ccontr)
    assume "\<not> g \<le> 2 ^ 33"
    then have "2 ^ 33 \<le> g - 1" by simp
    then have "2 ^ 33 * 2 ^ 30 \<le> (g - 1) * (2 ^ 30 :: int)"
      by (intro mult_right_mono) simp_all
    with l hi show False by simp
  qed
  have g0: "- (2 ^ 33) \<le> g"
  proof (rule ccontr)
    assume "\<not> - (2 ^ 33) \<le> g"
    then have "g \<le> - (2 ^ 33) - 1" by simp
    then have "g * (2 ^ 30 :: int) \<le> (- (2 ^ 33) - 1) * 2 ^ 30"
      by (intro mult_right_mono) simp_all
    with u lo show False by simp
  qed
  have "wrap64 (g * 1024) = g * 1024"
    using g0 g1 by (intro wrap64_id) simp_all
  then have V: "CreateVolume_volSizeMB req = g * 1024"
    using A by (simp add: CreateVolume_volSizeMB_def Let_def GbInBytes_power b_def g_def)
  show "CreateVolume_volSizeMB req mod 1024 = 0" by (simp add: V)
  show "(CreateVolume_volSizeMB req div 1024 - 1) * 2 ^ 30 < sint (RequiredBytes cr)"
    using l by (simp add: V b_def)
  show "sint (RequiredBytes cr) \<le> (CreateVolume_volSizeMB req div 1024) * 2 ^ 30"
    using u by (simp add: V b_def)
next
  assume A: "cv_CapacityRange req = Some cr \<and> RequiredBytes cr = 1"
  then show "CreateVolume_volSizeMB req = 1024"
    by (simp add: CreateVolume_volSizeMB_def Let_def RoundUpSize_def GbInBytes_def go_quot_def
          go_rem_def wrap64_def)
qed

section \<open>The parent type\<close>

text \<open>
  C10.  On a request that passes the validation and for which an instance is resolved, the
  parent type parameter decides the kind of pool named in every call to the driver (the
  lookup, the creation that follows a failed lookup, the read-back that follows the
  creation): every value other than the literal of the single datastore, though it is
  misspelled or unknown, is not rejected and names the pool as a datastore cluster, and only
  that literal names it as a single datastore.
\<close>

theorem CreateVolume_parent_type_defaults_to_cluster:
  assumes "cv_Parameters req = Some params" and "cv_Name req \<noteq> []"
    and "lookup params (AttributeFirstClassDiskParentType K) = volType"
    and "volType \<noteq> []"
    and "lookup params (AttributeFirstClassDiskParentName K) \<noteq> []"
    and "CreateVolume_discover K B cfg (cv_AccessibilityRequirements req)
           (lookup params (AttributeFirstClassDiskZone K))
           (lookup params (AttributeFirstClassDiskRegion K)) w = (Some (Inr di), (s1, tr1))"
  shows
    "(volType \<noteq> TypeDatastore K
        \<and> GetFirstClassDisk B (zdi_DataCenter di)
            (lookup params (AttributeFirstClassDiskParentName K))
            (TypeDatastoreCluster K) (cv_Name req) FindFCDByName s1 = (found, s2)
        \<and> CreateFirstClassDisk B (zdi_DataCenter di)
            (lookup params (AttributeFirstClassDiskParentName K))
            (TypeDatastoreCluster K) (cv_Name req) (CreateVolume_volSizeMB req) s2 = (created, s3)
        \<and> GetFirstClassDisk B (zdi_DataCenter di)
            (lookup params (AttributeFirstClassDiskParentName K))
            (TypeDatastoreCluster K) (cv_Name req) FindFCDByName s3 = (readBack, s4)
      \<longrightarrow> snd (snd (CreateVolume K B cfg req w)) =
           tr1 @ Call_GetFirstClassDisk (zdi_DataCenter di)
                   (lookup params (AttributeFirstClassDiskParentName K))
                   (TypeDatastoreCluster K) (cv_Name req) FindFCDByName found
               # (case found of
                    Inr d \<Rightarrow> []
                  | Inl e \<Rightarrow>
                      Call_CreateFirstClassDisk (zdi_DataCenter di)
                        (lookup params (AttributeFirstClassDiskParentName K))
                        (TypeDatastoreCluster K) (cv_Name req) (CreateVolume_volSizeMB req) created
                      # (case created of
                           Some e \<Rightarrow> []
                         | None \<Rightarrow>
                             [Call_GetFirstClassDisk (zdi_DataCenter di)
                                (lookup params (AttributeFirstClassDiskParentName K))
                                (TypeDatastoreCluster K) (cv_Name req) FindFCDByName readBack])))
     \<and> (volType = TypeDatastore K
        \<and> GetFirstClassDisk B (zdi_DataCenter di)
            (lookup params (AttributeFirstClassDiskParentName K))
            (TypeDatastore K) (cv_Name req) FindFCDByName s1 = (found, s2)
        \<and> CreateFirstClassDisk B (zdi_DataCenter di)
            (lookup params (AttributeFirstClassDiskParentName K))
            (TypeDatastore K) (cv_Name req) (CreateVolume_volSizeMB req) s2 = (created, s3)
        \<and> GetFirstClassDisk B (zdi_DataCenter di)
            (lookup params (AttributeFirstClassDiskParentName K))
            (TypeDatastore K) (cv_Name req) FindFCDByName s3 = (readBack, s4)
      \<longrightarrow> snd (snd (CreateVolume K B cfg req w)) =
           tr1 @ Call_GetFirstClassDisk (zdi_DataCenter di)
                   (lookup params (AttributeFirstClassDiskParentName K))
                   (TypeDatastore K) (cv_Name req) FindFCDByName found
               # (case found of
                    Inr d \<Rightarrow> []
                  | Inl e \<Rightarrow>
                      Call_CreateFirstClassDisk (zdi_DataCenter di)
                        (lookup params (AttributeFirstClassDiskParentName K))
                        (TypeDatastore K) (cv_Name req) (CreateVolume_volSizeMB req) created
                      # (case created of
                           Some e \<Rightarrow> []
                         | None \<Rightarrow>
                             [Call_GetFirstClassDisk (zdi_DataCenter di)
                                (lookup params (AttributeFirstClassDiskParentName K))
                                (TypeDatastore K) (cv_Name req) FindFCDByName readBack])))"
proof (intro conjI impI)
  have ne: "lookup params (AttributeFirstClassDiskParentType K) \<noteq> []"
    using assms(3,4) by simp
  note calls = CreateVolume_driver_calls [OF assms(1,2) ne assms(5,6)]
  {
    assume A: "volType \<noteq> TypeDatastore K
        \<and> GetFirstClassDisk B (zdi_DataCenter di)
            (lookup params (AttributeFirstClassDiskParentName K))
            (TypeDatastoreCluster K) (cv_Name req) FindFCDByName s1 = (found, s2)
        \<and> CreateFirstClassDisk B (zdi_DataCenter di)
            (lookup params (AttributeFirstClassDiskParentName K))
            (TypeDatastoreCluster K) (cv_Name req) (CreateVolume_volSizeMB req) s2 = (created, s3)
        \<and> GetFirstClassDisk B (zdi_DataCenter di)
            (lookup params (AttributeFirstClassDiskParentName K))
            (TypeDatastoreCluster K) (cv_Name req) FindFCDByName s3 = (readBack, s4)"
    have dt: "CreateVolume_datastoreType K params = TypeDatastoreCluster K"
      using assms(3) A by (auto simp: CreateVolume_datastoreType_def Let_def)
    from A have G: "GetFirstClassDisk B (zdi_DataCenter di)
            (lookup params (AttributeFirstClassDiskParentName K))
            (TypeDatastoreCluster K) (cv_Name req) FindFCDByName s1 = (found, s2)"
      and C: "CreateFirstClassDisk B (zdi_DataCenter di)
            (lookup params (AttributeFirstClassDiskParentName K))
            (TypeDatastoreCluster K) (cv_Name req) (CreateVolume_volSizeMB req) s2 = (created, s3)"
      and G2: "GetFirstClassDisk B (zdi_DataCenter di)
            (lookup params (AttributeFirstClassDiskParentName K))
            (TypeDatastoreCluster K) (cv_Name req) FindFCDByName s3 = (readBack, s4)"
      by simp_all
    show "snd (snd (CreateVolume K B cfg req w)) =
           tr1 @ Call_GetFirstClassDisk (zdi_DataCenter di)
                   (lookup params (AttributeFirstClassDiskParentName K))
                   (TypeDatastoreCluster K) (cv_Name req) FindFCDByName found
               # (case found of
                    Inr d \<Rightarrow> []
                  | Inl e \<Rightarrow>
                      Call_CreateFirstClassDisk (zdi_DataCenter di)
                        (lookup params (AttributeFirstClassDiskParentName K))
                        (TypeDatastoreCluster K) (cv_Name req) (CreateVolume_volSizeMB req) created
                      # (case created of
                           Some e \<Rightarrow> []
                         | None \<Rightarrow>
                             [Call_GetFirstClassDisk (zdi_DataCenter di)
                                (lookup params (AttributeFirstClassDiskParentName K))
                                (TypeDatastoreCluster K) (cv_Name req) FindFCDByName readBack]))"
      by (rule calls [OF dt G C G2])
  }
  {
    assume A: "volType = TypeDatastore K
        \<and> GetFirstClassDisk B (zdi_DataCenter di)
            (lookup params (AttributeFirstClassDiskParentName K))
            (TypeDatastore K) (cv_Name req) FindFCDByName s1 = (found, s2)
        \<and> CreateFirstClassDisk B (zdi_DataCenter di)
            (lookup params (AttributeFirstClassDiskParentName K))
            (TypeDatastore K) (cv_Name req) (CreateVolume_volSizeMB req) s2 = (created, s3)
        \<and> GetFirstClassDisk B (zdi_DataCenter di)
            (lookup params (AttributeFirstClassDiskParentName K))
            (TypeDatastore K) (cv_Name req) FindFCDByName s3 = (readBack, s4)"
    have dt: "CreateVolume_datastoreType K params = TypeDatastore K"
      using assms(3) A by (auto simp: CreateVolume_datastoreType_def Let_def)
    from A have G: "GetFirstClassDisk B (zdi_DataCenter di)
            (lookup params (AttributeFirstClassDiskParentName K))
            (TypeDatastore K) (cv_Name req) FindFCDByName s1 = (found, s2)"
      and C: "CreateFirstClassDisk B (zdi_DataCenter di)
            (lookup params (AttributeFirstClassDiskParentName K))
            (TypeDatastore K) (cv_Name req) (CreateVolume_volSizeMB req) s2 = (created, s3)"
      and G2: "GetFirstClassDisk B (zdi_DataCenter di)
            (lookup params (AttributeFirstClassDiskParentName K))
            (TypeDatastore K) (cv_Name req) FindFCDByName s3 = (readBack, s4)"
      by simp_all
    show "snd (snd (CreateVolume K B cfg req w)) =
           tr1 @ Call_GetFirstClassDisk (zdi_DataCenter di)
                   (lookup params (AttributeFirstClassDiskParentName K))
                   (TypeDatastore K) (cv_Name req) FindFCDByName found
               # (case found of
                    Inr d \<Rightarrow> []
                  | Inl e \<Rightarrow>
                      Call_CreateFirstClassDisk (zdi_DataCenter di)
                        (lookup params (AttributeFirstClassDiskParentName K))
                        (TypeDatastore K) (cv_Name req) (CreateVolume_volSizeMB req) created
                      # (case created of
                           Some e \<Rightarrow> []
                         | None \<Rightarrow>
                             [Call_GetFirstClassDisk (zdi_DataCenter di)
                                (lookup params (AttributeFirstClassDiskParentName K))
                                (TypeDatastore K) (cv_Name req) FindFCDByName readBack]))"
      by (rule calls [OF dt G C G2])
  }
qed

text \<open>Only the literal of the single datastore selects the single datastore.\<close>

lemma CreateVolume_datastoreType_exact:
  assumes "TypeDatastore K \<noteq> TypeDatastoreCluster K"
  shows "(CreateVolume_datastoreType K params = TypeDatastore K)
           = (lookup params (AttributeFirstClassDiskParentType K) = TypeDatastore K)"
  using assms by (auto simp: CreateVolume_datastoreType_def Let_def)

section \<open>The attribute maps\<close>

text \<open>
  The attribute maps of the three operations.
\<close>

lemma attributes_ok_CreateVolume_response:
  "attribute_keys_distinct K \<Longrightarrow>
     attributes_ok K d (VolumeContext (cv_Volume (CreateVolume_response K di d)))"
  by (auto simp: attribute_keys_distinct_def attributes_ok_def CreateVolume_response_def Let_def)

lemma attributes_ok_ListVolumes_entry:
  "attribute_keys_distinct K \<Longrightarrow>
     attributes_ok K d (VolumeContext (ListVolumes_entry K B d))"
  by (auto simp: attribute_keys_distinct_def attributes_ok_def ListVolumes_entry_def Let_def)

lemma set_slice_from: "slice_from xs lo = Some ys \<Longrightarrow> set ys \<subseteq> set xs"
  by (auto simp: slice_from_def split: if_splits dest: in_set_dropD)

lemma set_slice_range: "slice_range xs lo hi = Some ys \<Longrightarrow> set ys \<subseteq> set xs"
  by (auto simp: slice_range_def split: if_splits dest!: in_set_takeD in_set_dropD)

text \<open>
  C7.  With pairwise different keys, the volume context of a response of CreateVolume, the
  publish context of a response of ControllerPublishVolume and the volume context of each
  entry of a response of ListVolumes hold the type marker, the vCenter, the datacenter, the
  name of the disk, its parent type and a parent name, and hold the owning datastore exactly
  when the parent type of the disk is the datastore cluster.  The disk is the one the
  lookup, the resolution by id, or the listing returned.
\<close>

theorem attribute_maps:
  assumes K: "attribute_keys_distinct K"
  shows
    "(CreateVolume K B cfg req w = (Return (Some resp) e, w')
        \<longrightarrow> (\<exists>d dc datastoreName datastoreType diskID.
               Call_GetFirstClassDisk dc datastoreName datastoreType diskID FindFCDByName (Inr d)
                 \<in> set (snd w')
               \<and> attributes_ok K d (VolumeContext (cv_Volume resp))))
     \<and> (ControllerPublishVolume K B preq w = (Return (Some presp) pe, pw')
        \<longrightarrow> (\<exists>discoveryInfo.
               Call_WhichVCandDCByFCDId (cp_VolumeId preq) (Inr discoveryInfo) \<in> set (snd pw')
               \<and> attributes_ok K (fdi_FCDInfo discoveryInfo) (PublishContext presp)))
     \<and> (ListVolumes K B lreq w = (Return (Some lresp) le, lw')
        \<longrightarrow> (\<exists>ds. set ds \<subseteq> set (fst (getAllFCDs B (fst w)))
               \<and> list_all2 (\<lambda>d v. attributes_ok K d (VolumeContext v)) ds (Entries lresp)))"
proof (intro conjI impI)
  assume "CreateVolume K B cfg req w = (Return (Some resp) e, w')"
  then show "\<exists>d dc datastoreName datastoreType diskID.
               Call_GetFirstClassDisk dc datastoreName datastoreType diskID FindFCDByName (Inr d)
                 \<in> set (snd w')
               \<and> attributes_ok K d (VolumeContext (cv_Volume resp))"
    using attributes_ok_CreateVolume_response [OF K]
    by (fastforce simp: CreateVolume_def Let_def call_GetFirstClassDisk_def
          call_CreateFirstClassDisk_def
          split: option.splits if_splits prod.splits sum.splits)
next
  assume "ControllerPublishVolume K B preq w = (Return (Some presp) pe, pw')"
  then show "\<exists>discoveryInfo.
               Call_WhichVCandDCByFCDId (cp_VolumeId preq) (Inr discoveryInfo) \<in> set (snd pw')
               \<and> attributes_ok K (fdi_FCDInfo discoveryInfo) (PublishContext presp)"
    using K
    by (fastforce simp: ControllerPublishVolume_def Let_def call_WhichVCandDCByFCDId_def
          call_GetVMByDNSName_def call_AttachDisk_def attribute_keys_distinct_def attributes_ok_def
          split: option.splits if_splits prod.splits sum.splits BaseConfigInfoBackingInfo.splits)
next
  assume L: "ListVolumes K B lreq w = (Return (Some lresp) le, lw')"
  then obtain ds where s: "set ds \<subseteq> set (fst (getAllFCDs B (fst w)))"
    and e: "Entries lresp = map (ListVolumes_entry K B) ds"
    by (auto simp: ListVolumes_def Let_def call_getAllFCDs_def
          split: option.splits if_splits prod.splits dest: set_slice_from set_slice_range)
  have "list_all2 (\<lambda>d v. attributes_ok K d (VolumeContext v)) ds (map (ListVolumes_entry K B) ds)"
    by (simp add: list_all2_map2 list_all2_same attributes_ok_ListVolumes_entry [OF K])
  with s e show "\<exists>ds. set ds \<subseteq> set (fst (getAllFCDs B (fst w)))
               \<and> list_all2 (\<lambda>d v. attributes_ok K d (VolumeContext v)) ds (Entries lresp)"
    by auto
qed

section \<open>The operations on the small platform\<close>

text \<open>
  The parameters, the resolution of the zone, the sizes and the calls to the driver on the
  small platform.
\<close>

lemma ex_lookups:
  "lookup ex_params (AttributeFirstClassDiskParentType ex_constants) = ''Datastore''"
  "lookup ex_params (AttributeFirstClassDiskParentName ex_constants) = ''ds1''"
  "lookup ex_params (AttributeFirstClassDiskZone ex_constants) = ''zoneB''"
  "lookup ex_params (AttributeFirstClassDiskRegion ex_constants) = ''regionY''"
  "CreateVolume_datastoreType ex_constants ex_params = ''Datastore''"
  by (simp_all add: lookup_def ex_params_def ex_constants_def CreateVolume_datastoreType_def)

lemma ex_discover:
  "CreateVolume_discover ex_constants ex_backend ex_config None ''zoneB'' ''regionY'' (s, tr) =
     (Some (Inr ex_zdi), (s, tr @ [ex_zone_call]))"
  by (simp add: CreateVolume_discover_def call_WhichVCandDCByZone_def ex_backend_def ex_config_def
        ex_zone_call_def)

lemma ex_sizes:
  "CreateVolume_volSizeMB (ex_request volName 1) = 1024"
  "CreateVolume_volSizeMB (ex_request volName 1073741825) = 2048"
  by (simp_all add: CreateVolume_volSizeMB_def ex_request_def Let_def RoundUpSize_def GbInBytes_def
        wrap64_def go_quot_def go_rem_def)

lemma ex_get_present:
  "GetFirstClassDisk ex_backend ex_dc ''ds1'' ''Datastore'' ''vol1'' FindFCDByName (ex_vol1 # s) =
     (Inr ex_vol1, ex_vol1 # s)"
  by (simp add: ex_backend_def ex_vol1_def ex_disk_def ex_parent_def)

lemma ex_get_absent:
  "GetFirstClassDisk ex_backend ex_dc ''ds1'' ''Datastore'' ''vol1'' FindFCDByName [] =
     (Inl (BackendError ''no disk found''), [])"
  by (simp add: ex_backend_def)

lemma ex_create:
  "CreateFirstClassDisk ex_backend ex_dc ''ds1'' ''Datastore'' ''vol1'' 1024 s = (None, s @ [ex_vol1])"
  by (simp add: ex_backend_def ex_vol1_def)

lemma ex_discover_topology:
  "CreateVolume_discover ex_constants ex_backend ex_config (Some ex_accessibility)
       ''zoneB'' ''regionY'' (s, tr) =
     (Some (Inr ex_zdi), (s, tr @ [ex_zone_failed, ex_zone_call]))"
  "CreateVolume_discover ex_constants ex_backend ex_config (Some ex_accessibility_failing)
       ''zoneB'' ''regionY'' (s, tr) =
     (Some (Inl (BackendError ''no matching datacenter'')), (s, tr @ [ex_zone_failed]))"
  by (simp_all add: CreateVolume_discover_def ex_accessibility_def ex_accessibility_failing_def
        ex_topology_def ex_constants_def ex_config_def ex_backend_def call_WhichVCandDCByZone_def
        lookup_def Let_def ex_zone_failed_def ex_zone_call_def)

text \<open>
  C6 on the small platform, where only \<open>(zoneB, regionY)\<close> resolves.  With the requisite list
  \<open>[(zoneA, regionX), (zoneB, regionY)]\<close> and the preferred list \<open>[(zoneC, regionZ)]\<close> the
  first call fails, the second gives the instance, \<open>zoneC\<close> is never asked for, and the disk
  is looked up next.  With the requisite list \<open>[(zoneA, regionX)]\<close> and the preferred list
  \<open>[(zoneB, regionY)]\<close> the one call fails and CreateVolume returns \<open>Internal\<close> without
  trying the preferred list.  Without requirements the zone of the parameters is resolved.
\<close>

theorem CreateVolume_zone_resolution_witness:
  "first_success_wins ex_constants ex_config
      [ex_topology ''zoneA'' ''regionX'', ex_topology ''zoneB'' ''regionY'']
      [ex_zone_failed, ex_zone_call] (Some (Inr ex_zdi))
   \<and> filter is_zone_call
       (snd (snd (CreateVolume ex_constants ex_backend ex_config
                    (ex_request_topology ex_accessibility) ([], []))))
       = [ex_zone_failed, ex_zone_call]
   \<and> take 1 (drop 2 (snd (snd (CreateVolume ex_constants ex_backend ex_config
                                 (ex_request_topology ex_accessibility) ([], [])))))
       = [ex_get_call (Inl (BackendError ''no disk found''))]
   \<and> first_success_wins ex_constants ex_config [ex_topology ''zoneA'' ''regionX'']
       [ex_zone_failed] (Some (Inl (BackendError ''no matching datacenter'')))
   \<and> CreateVolume ex_constants ex_backend ex_config
        (ex_request_topology ex_accessibility_failing) ([], [])
       = (Return None (Some (StatusError Internal)), ([], [ex_zone_failed]))
   \<and> CreateVolume_discover ex_constants ex_backend ex_config None ''zoneB'' ''regionY'' ([], [])
       = (Some (Inr ex_zdi), ([], [ex_zone_call]))"
proof -
  have rq: "cv_Parameters (ex_request_topology a) = Some ex_params"
    "cv_Name (ex_request_topology a) = ''vol1''"
    "cv_AccessibilityRequirements (ex_request_topology a) = Some a" for a
    by (simp_all add: ex_request_topology_def ex_request_def)
  have rq0: "cv_Parameters (ex_request ''vol1'' 1) = Some ex_params"
    "cv_Name (ex_request ''vol1'' 1) = ''vol1''"
    "cv_AccessibilityRequirements (ex_request ''vol1'' 1) = None"
    by (simp_all add: ex_request_def)
  have ev: "is_zone_call ex_zone_failed" "is_zone_call ex_zone_call"
    by (simp_all add: is_zone_call_def ex_zone_failed_def ex_zone_call_def)
  have dc: "zdi_DataCenter ex_zdi = ex_dc" by (simp add: ex_zdi_def)
  have ac: "Requisite ex_accessibility =
      Some [ex_topology ''zoneA'' ''regionX'', ex_topology ''zoneB'' ''regionY'']"
    "Requisite ex_accessibility_failing = Some [ex_topology ''zoneA'' ''regionX'']"
    by (simp_all add: ex_accessibility_def ex_accessibility_failing_def)
  have 1: "first_success_wins ex_constants ex_config
      [ex_topology ''zoneA'' ''regionX'', ex_topology ''zoneB'' ''regionY'']
      [ex_zone_failed, ex_zone_call] (Some (Inr ex_zdi))
   \<and> filter is_zone_call
       (snd (snd (CreateVolume ex_constants ex_backend ex_config
                    (ex_request_topology ex_accessibility) ([], []))))
       = [ex_zone_failed, ex_zone_call]
   \<and> take 1 (drop 2 (snd (snd (CreateVolume ex_constants ex_backend ex_config
                                 (ex_request_topology ex_accessibility) ([], [])))))
       = [ex_get_call (Inl (BackendError ''no disk found''))]"
    using CreateVolume_zone_resolution [where K = ex_constants and B = ex_backend
        and cfg = ex_config and req = "ex_request_topology ex_accessibility"
        and params = ex_params and zone = "''zoneB''" and region = "''regionY''"
        and s = "[]" and tr = "[]" and r = "Some (Inr ex_zdi)"
        and ?w1.0 = "([], [ex_zone_failed, ex_zone_call])" and a = ex_accessibility
        and ts = "[ex_topology ''zoneA'' ''regionX'', ex_topology ''zoneB'' ''regionY'']"
        and di = ex_zdi]
    by (simp add: rq ex_lookups ex_discover_topology [of "[]" "[]", simplified] ev dc
          ex_get_absent ex_get_call_def ac numeral_2_eq_2)
  have 2: "first_success_wins ex_constants ex_config [ex_topology ''zoneA'' ''regionX'']
       [ex_zone_failed] (Some (Inl (BackendError ''no matching datacenter'')))
   \<and> CreateVolume ex_constants ex_backend ex_config
        (ex_request_topology ex_accessibility_failing) ([], [])
       = (Return None (Some (StatusError Internal)), ([], [ex_zone_failed]))"
    using CreateVolume_zone_resolution [where K = ex_constants and B = ex_backend
        and cfg = ex_config and req = "ex_request_topology ex_accessibility_failing"
        and params = ex_params and zone = "''zoneB''" and region = "''regionY''"
        and s = "[]" and tr = "[]" and r = "Some (Inl (BackendError ''no matching datacenter''))"
        and ?w1.0 = "([], [ex_zone_failed])" and a = ex_accessibility_failing
        and ts = "[ex_topology ''zoneA'' ''regionX'']"
        and e = "BackendError ''no matching datacenter''"]
    by (simp add: rq ex_lookups ex_discover_topology [of "[]" "[]", simplified] ev ac)
  have 3: "CreateVolume_discover ex_constants ex_backend ex_config None ''zoneB'' ''regionY'' ([], [])
       = (Some (Inr ex_zdi), ([], [ex_zone_call]))"
    using CreateVolume_zone_resolution [where K = ex_constants and B = ex_backend
        and cfg = ex_config and req = "ex_request ''vol1'' 1"
        and params = ex_params and zone = "''zoneB''" and region = "''regionY''"
        and s = "[]" and tr = "[]" and r = "Some (Inr ex_zdi)"
        and ?w1.0 = "([], [ex_zone_call])"]
    by (simp add: rq0 ex_lookups ex_discover [of "[]" "[]", simplified])
  from 1 2 3 show ?thesis by simp
qed

text \<open>
  C3 on the small platform.  With the disk \<open>vol1\<close> of 1024 MB present, a request for one
  byte under that name returns its id after the lookup alone, and a request for one
  gibibyte and one byte fails with \<open>AlreadyExists\<close> after the lookup alone.  With no disk
  present, the lookup fails, one creation follows, and the read-back finds the new disk.
\<close>

theorem CreateVolume_idempotent_witness:
  "CreateVolume ex_constants ex_backend ex_config (ex_request ''vol1'' 1) ([ex_vol1], []) =
     (Return (Some (CreateVolume_response ex_constants ex_zdi ex_vol1)) None,
      ([ex_vol1], [ex_zone_call, ex_get_call (Inr ex_vol1)]))
   \<and> VolumeId (cv_Volume (CreateVolume_response ex_constants ex_zdi ex_vol1)) = ''id-vol1''
   \<and> CreateVolume ex_constants ex_backend ex_config (ex_request ''vol1'' 1073741825) ([ex_vol1], []) =
     (Return None (Some (StatusError AlreadyExists)),
      ([ex_vol1], [ex_zone_call, ex_get_call (Inr ex_vol1)]))
   \<and> snd (CreateVolume ex_constants ex_backend ex_config (ex_request ''vol1'' 1) ([], [])) =
     ([ex_vol1],
      [ex_zone_call, ex_get_call (Inl (BackendError ''no disk found'')), ex_create_call,
       ex_get_call (Inr ex_vol1)])"
proof -
  have dc: "zdi_DataCenter ex_zdi = ex_dc" by (simp add: ex_zdi_def)
  have id: "Config_Id ex_vol1 = ''id-vol1''" "Config_CapacityInMB ex_vol1 = 1024"
    by (simp_all add: ex_vol1_def ex_disk_def)
  have rq: "cv_Parameters (ex_request n b) = Some ex_params" "cv_Name (ex_request n b) = n"
    "cv_AccessibilityRequirements (ex_request n b) = None" for n b
    by (simp_all add: ex_request_def)
  have 1: "CreateVolume ex_constants ex_backend ex_config (ex_request ''vol1'' 1) ([ex_vol1], []) =
     (Return (Some (CreateVolume_response ex_constants ex_zdi ex_vol1)) None,
      ([ex_vol1], [ex_zone_call, ex_get_call (Inr ex_vol1)]))
   \<and> VolumeId (cv_Volume (CreateVolume_response ex_constants ex_zdi ex_vol1)) = ''id-vol1''"
    using CreateVolume_idempotent [where K = ex_constants and B = ex_backend and cfg = ex_config
        and req = "ex_request ''vol1'' 1" and params = ex_params and s = "[ex_vol1]" and tr = "[]"
        and di = ex_zdi and ?s1.0 = "[ex_vol1]" and ?tr1.0 = "[ex_zone_call]"
        and found = "Inr ex_vol1" and ?s2.0 = "[ex_vol1]"
        and created = None and ?s3.0 = "[ex_vol1, ex_vol1]"
        and readBack = "Inr ex_vol1" and ?s4.0 = "[ex_vol1, ex_vol1]"
        and ?get1.0 = "ex_get_call (Inr ex_vol1)" and create = ex_create_call
        and ?get2.0 = "ex_get_call (Inr ex_vol1)" and d = ex_vol1]
    by (simp add: rq ex_lookups ex_discover ex_sizes dc ex_get_present ex_create id
          ex_get_call_def ex_create_call_def)
  have 2: "CreateVolume ex_constants ex_backend ex_config (ex_request ''vol1'' 1073741825) ([ex_vol1], []) =
     (Return None (Some (StatusError AlreadyExists)),
      ([ex_vol1], [ex_zone_call, ex_get_call (Inr ex_vol1)]))"
    using CreateVolume_idempotent [where K = ex_constants and B = ex_backend and cfg = ex_config
        and req = "ex_request ''vol1'' 1073741825" and params = ex_params and s = "[ex_vol1]" and tr = "[]"
        and di = ex_zdi and ?s1.0 = "[ex_vol1]" and ?tr1.0 = "[ex_zone_call]"
        and found = "Inr ex_vol1" and ?s2.0 = "[ex_vol1]"
        and created = None
        and ?s3.0 = "[ex_vol1, ex_disk ''Datastore'' ''ds1'' ''vol1'' 2048]"
        and readBack = "Inr ex_vol1"
        and ?s4.0 = "[ex_vol1, ex_disk ''Datastore'' ''ds1'' ''vol1'' 2048]"
        and ?get1.0 = "ex_get_call (Inr ex_vol1)"
        and create = "Call_CreateFirstClassDisk ex_dc ''ds1'' ''Datastore'' ''vol1'' 2048 None"
        and ?get2.0 = "ex_get_call (Inr ex_vol1)" and d = ex_vol1]
    by (simp add: rq ex_lookups ex_discover ex_sizes dc id ex_get_call_def ex_get_present)
       (simp add: ex_backend_def)
  have 3: "snd (CreateVolume ex_constants ex_backend ex_config (ex_request ''vol1'' 1) ([], [])) =
     ([ex_vol1],
      [ex_zone_call, ex_get_call (Inl (BackendError ''no disk found'')), ex_create_call,
       ex_get_call (Inr ex_vol1)])"
    using CreateVolume_idempotent [where K = ex_constants and B = ex_backend and cfg = ex_config
        and req = "ex_request ''vol1'' 1" and params = ex_params and s = "[]" and tr = "[]"
        and di = ex_zdi and ?s1.0 = "[]" and ?tr1.0 = "[ex_zone_call]"
        and found = "Inl (BackendError ''no disk found'')" and ?s2.0 = "[]"
        and created = None and ?s3.0 = "[ex_vol1]"
        and readBack = "Inr ex_vol1" and ?s4.0 = "[ex_vol1]"
        and ?get1.0 = "ex_get_call (Inl (BackendError ''no disk found''))" and create = ex_create_call
        and ?get2.0 = "ex_get_call (Inr ex_vol1)" and e = "BackendError ''no disk found''"]
    by (simp add: rq ex_lookups ex_discover ex_sizes dc ex_get_present ex_get_absent ex_create
          ex_get_call_def ex_create_call_def)
  from 1 2 3 show ?thesis by simp
qed


text \<open>
  C5 on six requests: zero required bytes, no capacity range, one gibibyte and one byte
  (which takes two gibibytes), the largest byte count of 64 bits (which takes \<open>2^33\<close>
  gibibytes), a negative gibibyte (minus one gibibyte), and one byte.
\<close>

theorem CreateVolume_capacity_witness:
  "CreateVolume_volSizeMB (ex_request ''vol1'' 0) = 10 * 1024
   \<and> CreateVolume_volSizeMB ((ex_request ''vol1'' 0)\<lparr>cv_CapacityRange := None\<rparr>) = 10 * 1024
   \<and> CreateVolume_volSizeMB (ex_request ''vol1'' 1073741825) mod 1024 = 0
   \<and> (CreateVolume_volSizeMB (ex_request ''vol1'' 1073741825) div 1024 - 1) * 2 ^ 30 < 1073741825
   \<and> 1073741825 \<le> (CreateVolume_volSizeMB (ex_request ''vol1'' 1073741825) div 1024) * 2 ^ 30
   \<and> (CreateVolume_volSizeMB (ex_request ''vol1'' 9223372036854775807) div 1024 - 1) * 2 ^ 30
        < 9223372036854775807
   \<and> 9223372036854775807
        \<le> (CreateVolume_volSizeMB (ex_request ''vol1'' 9223372036854775807) div 1024) * 2 ^ 30
   \<and> (CreateVolume_volSizeMB (ex_request ''vol1'' (- 1073741824)) div 1024 - 1) * 2 ^ 30
        < - 1073741824
   \<and> - 1073741824
        \<le> (CreateVolume_volSizeMB (ex_request ''vol1'' (- 1073741824)) div 1024) * 2 ^ 30
   \<and> CreateVolume_volSizeMB (ex_request ''vol1'' 1) = 1024"
proof -
  have s: "sint (1073741825 :: 64 word) = 1073741825"
    "sint (9223372036854775807 :: 64 word) = 9223372036854775807"
    "sint (- 1073741824 :: 64 word) = - 1073741824"
    by simp_all
  have 1: "CreateVolume_volSizeMB (ex_request ''vol1'' 0) = 10 * 1024"
    using CreateVolume_capacity [of "ex_request ''vol1'' 0" "\<lparr>RequiredBytes = 0, LimitBytes = 0\<rparr>"]
    by (simp add: ex_request_def)
  have 2: "CreateVolume_volSizeMB ((ex_request ''vol1'' 0)\<lparr>cv_CapacityRange := None\<rparr>) = 10 * 1024"
    using CreateVolume_capacity [of "(ex_request ''vol1'' 0)\<lparr>cv_CapacityRange := None\<rparr>"]
    by (simp add: ex_request_def)
  have 3: "CreateVolume_volSizeMB (ex_request ''vol1'' 1073741825) mod 1024 = 0
   \<and> (CreateVolume_volSizeMB (ex_request ''vol1'' 1073741825) div 1024 - 1) * 2 ^ 30 < 1073741825
   \<and> 1073741825 \<le> (CreateVolume_volSizeMB (ex_request ''vol1'' 1073741825) div 1024) * 2 ^ 30"
    using CreateVolume_capacity [of "ex_request ''vol1'' 1073741825"
        "\<lparr>RequiredBytes = 1073741825, LimitBytes = 0\<rparr>"]
    unfolding ex_request_def by (simp add: s)
  have 4: "(CreateVolume_volSizeMB (ex_request ''vol1'' 9223372036854775807) div 1024 - 1) * 2 ^ 30
        < 9223372036854775807
   \<and> 9223372036854775807
        \<le> (CreateVolume_volSizeMB (ex_request ''vol1'' 9223372036854775807) div 1024) * 2 ^ 30"
    using CreateVolume_capacity [of "ex_request ''vol1'' 9223372036854775807"
        "\<lparr>RequiredBytes = 9223372036854775807, LimitBytes = 0\<rparr>"]
    unfolding ex_request_def by (simp add: s)
  have 5: "(CreateVolume_volSizeMB (ex_request ''vol1'' (- 1073741824)) div 1024 - 1) * 2 ^ 30
        < - 1073741824
   \<and> - 1073741824
        \<le> (CreateVolume_volSizeMB (ex_request ''vol1'' (- 1073741824)) div 1024) * 2 ^ 30"
    using CreateVolume_capacity [of "ex_request ''vol1'' (- 1073741824)"
        "\<lparr>RequiredBytes = - 1073741824, LimitBytes = 0\<rparr>"]
    unfolding ex_request_def by (simp add: s)
  have 6: "CreateVolume_volSizeMB (ex_request ''vol1'' 1) = 1024"
    using CreateVolume_capacity [of "ex_request ''vol1'' 1" "\<lparr>RequiredBytes = 1, LimitBytes = 0\<rparr>"]
    by (simp add: ex_request_def)
  from 1 2 3 4 5 6 show ?thesis by simp
qed

text \<open>
  C10 on the small platform, with no disk present.  The parent type \<open>datastore\<close>, which is
  not the literal \<open>Datastore\<close>, is looked up and created as a datastore cluster; the same
  request with the parent type \<open>Datastore\<close> is looked up and created as a single datastore.
\<close>

theorem CreateVolume_parent_type_defaults_to_cluster_witness:
  "snd (snd (CreateVolume ex_constants ex_backend ex_config ex_request_misspelled ([], []))) =
     [ex_zone_call,
      Call_GetFirstClassDisk ex_dc ''pod1'' ''DatastoreCluster'' ''vol2'' FindFCDByName
        (Inl (BackendError ''no disk found'')),
      Call_CreateFirstClassDisk ex_dc ''pod1'' ''DatastoreCluster'' ''vol2'' 10240 None,
      Call_GetFirstClassDisk ex_dc ''pod1'' ''DatastoreCluster'' ''vol2'' FindFCDByName
        (Inr (ex_disk ''DatastoreCluster'' ''pod1'' ''vol2'' 10240))]
   \<and> snd (snd (CreateVolume ex_constants ex_backend ex_config ex_request_exact ([], []))) =
     [ex_zone_call,
      Call_GetFirstClassDisk ex_dc ''pod1'' ''Datastore'' ''vol2'' FindFCDByName
        (Inl (BackendError ''no disk found'')),
      Call_CreateFirstClassDisk ex_dc ''pod1'' ''Datastore'' ''vol2'' 10240 None,
      Call_GetFirstClassDisk ex_dc ''pod1'' ''Datastore'' ''vol2'' FindFCDByName
        (Inr (ex_disk ''Datastore'' ''pod1'' ''vol2'' 10240))]"
proof -
  let ?misspelled = "[''parent_type'' \<mapsto> ''datastore'', ''parent_name'' \<mapsto> ''pod1'',
              ''zone'' \<mapsto> ''zoneB'', ''region'' \<mapsto> ''regionY'']"
  let ?exact = "[''parent_type'' \<mapsto> ''Datastore'', ''parent_name'' \<mapsto> ''pod1'',
              ''zone'' \<mapsto> ''zoneB'', ''region'' \<mapsto> ''regionY'']"
  have l: "lookup ?misspelled (AttributeFirstClassDiskParentType ex_constants) = ''datastore''"
    "lookup ?misspelled (AttributeFirstClassDiskParentName ex_constants) = ''pod1''"
    "lookup ?misspelled (AttributeFirstClassDiskZone ex_constants) = ''zoneB''"
    "lookup ?misspelled (AttributeFirstClassDiskRegion ex_constants) = ''regionY''"
    "lookup ?exact (AttributeFirstClassDiskParentType ex_constants) = ''Datastore''"
    "lookup ?exact (AttributeFirstClassDiskParentName ex_constants) = ''pod1''"
    "lookup ?exact (AttributeFirstClassDiskZone ex_constants) = ''zoneB''"
    "lookup ?exact (AttributeFirstClassDiskRegion ex_constants) = ''regionY''"
    by (simp_all add: lookup_def ex_constants_def)
  have k: "TypeDatastore ex_constants = ''Datastore''"
    "TypeDatastoreCluster ex_constants = ''DatastoreCluster''"
    by (simp_all add: ex_constants_def)
  have sz: "CreateVolume_volSizeMB ex_request_misspelled = 10240"
    "CreateVolume_volSizeMB ex_request_exact = 10240"
    by (simp_all add: CreateVolume_volSizeMB_def Let_def default_volSizeMB
          ex_request_misspelled_def ex_request_exact_def)
  have dc: "zdi_DataCenter ex_zdi = ex_dc" by (simp add: ex_zdi_def)
  have 1: "snd (snd (CreateVolume ex_constants ex_backend ex_config ex_request_misspelled ([], []))) =
     [ex_zone_call,
      Call_GetFirstClassDisk ex_dc ''pod1'' ''DatastoreCluster'' ''vol2'' FindFCDByName
        (Inl (BackendError ''no disk found'')),
      Call_CreateFirstClassDisk ex_dc ''pod1'' ''DatastoreCluster'' ''vol2'' 10240 None,
      Call_GetFirstClassDisk ex_dc ''pod1'' ''DatastoreCluster'' ''vol2'' FindFCDByName
        (Inr (ex_disk ''DatastoreCluster'' ''pod1'' ''vol2'' 10240))]"
    using CreateVolume_parent_type_defaults_to_cluster
      [where K = ex_constants and B = ex_backend and cfg = ex_config
        and req = ex_request_misspelled and params = ?misspelled and volType = "''datastore''"
        and w = "([], [])" and di = ex_zdi and ?s1.0 = "[]" and ?tr1.0 = "[ex_zone_call]"
        and found = "Inl (BackendError ''no disk found'')" and ?s2.0 = "[]"
        and created = None and ?s3.0 = "[ex_disk ''DatastoreCluster'' ''pod1'' ''vol2'' 10240]"
        and readBack = "Inr (ex_disk ''DatastoreCluster'' ''pod1'' ''vol2'' 10240)"
        and ?s4.0 = "[ex_disk ''DatastoreCluster'' ''pod1'' ''vol2'' 10240]"]
    unfolding l k sz dc
    by (simp add: ex_request_misspelled_def l ex_discover [of "[]" "[]", simplified])
       (simp add: ex_backend_def ex_disk_def ex_parent_def)
  have 2: "snd (snd (CreateVolume ex_constants ex_backend ex_config ex_request_exact ([], []))) =
     [ex_zone_call,
      Call_GetFirstClassDisk ex_dc ''pod1'' ''Datastore'' ''vol2'' FindFCDByName
        (Inl (BackendError ''no disk found'')),
      Call_CreateFirstClassDisk ex_dc ''pod1'' ''Datastore'' ''vol2'' 10240 None,
      Call_GetFirstClassDisk ex_dc ''pod1'' ''Datastore'' ''vol2'' FindFCDByName
        (Inr (ex_disk ''Datastore'' ''pod1'' ''vol2'' 10240))]"
    using CreateVolume_parent_type_defaults_to_cluster
      [where K = ex_constants and B = ex_backend and cfg = ex_config
        and req = ex_request_exact and params = ?exact and volType = "''Datastore''"
        and w = "([], [])" and di = ex_zdi and ?s1.0 = "[]" and ?tr1.0 = "[ex_zone_call]"
        and found = "Inl (BackendError ''no disk found'')" and ?s2.0 = "[]"
        and created = None and ?s3.0 = "[ex_disk ''Datastore'' ''pod1'' ''vol2'' 10240]"
        and readBack = "Inr (ex_disk ''Datastore'' ''pod1'' ''vol2'' 10240)"
        and ?s4.0 = "[ex_disk ''Datastore'' ''pod1'' ''vol2'' 10240]"]
    unfolding l k sz dc
    by (simp add: ex_request_exact_def l ex_discover [of "[]" "[]", simplified])
       (simp add: ex_backend_def ex_disk_def ex_parent_def)
  from 1 2 show ?thesis by simp
qed

text \<open>
  C7 on the small platform: the response of CreateVolume for the disk present, of
  ControllerPublishVolume for the second of three disks, and of ListVolumes over the three.
\<close>

theorem attribute_maps_witness:
  "attribute_keys_distinct ex_constants
   \<and> (\<exists>d dc datastoreName datastoreType diskID.
        Call_GetFirstClassDisk dc datastoreName datastoreType diskID FindFCDByName (Inr d)
          \<in> set [ex_zone_call, ex_get_call (Inr ex_vol1)]
        \<and> attributes_ok ex_constants d
            (VolumeContext (cv_Volume (CreateVolume_response ex_constants ex_zdi ex_vol1))))
   \<and> (\<exists>discoveryInfo.
        Call_WhichVCandDCByFCDId ''id-disk1'' (Inr discoveryInfo)
          \<in> set (snd (snd (ControllerPublishVolume ex_constants ex_backend
                              \<lparr>cp_VolumeId = ''id-disk1'', cp_NodeId = ''node1''\<rparr> (ex_three, []))))
        \<and> attributes_ok ex_constants (fdi_FCDInfo discoveryInfo)
            (PublishContext
               (the (returned (fst (ControllerPublishVolume ex_constants ex_backend
                                      \<lparr>cp_VolumeId = ''id-disk1'', cp_NodeId = ''node1''\<rparr>
                                      (ex_three, [])))))))
   \<and> (\<exists>ds. set ds \<subseteq> set ex_three
        \<and> list_all2 (\<lambda>d v. attributes_ok ex_constants d (VolumeContext v)) ds
            (map (ListVolumes_entry ex_constants ex_backend) ex_three))"
proof -
  have K: "attribute_keys_distinct ex_constants"
    by (simp add: attribute_keys_distinct_def ex_constants_def)
  have C: "CreateVolume ex_constants ex_backend ex_config (ex_request ''vol1'' 1) ([ex_vol1], []) =
     (Return (Some (CreateVolume_response ex_constants ex_zdi ex_vol1)) None,
      ([ex_vol1], [ex_zone_call, ex_get_call (Inr ex_vol1)]))"
    by (simp add: CreateVolume_def ex_request_def ex_lookups ex_discover ex_sizes [unfolded ex_request_def]
          call_GetFirstClassDisk_def ex_get_present ex_get_call_def ex_zdi_def Let_def)
       (simp add: ex_vol1_def ex_disk_def)
  let ?P = "ControllerPublishVolume ex_constants ex_backend
              \<lparr>cp_VolumeId = ''id-disk1'', cp_NodeId = ''node1''\<rparr> (ex_three, [])"
  obtain presp where "fst ?P = Return (Some presp) None"
    by (simp add: ControllerPublishVolume_def call_WhichVCandDCByFCDId_def call_GetVMByDNSName_def
          call_AttachDisk_def ex_backend_def ex_three_def ex_d_def ex_disk_def Let_def)
  then have P: "?P = (Return (Some (the (returned (fst ?P)))) None, snd ?P)"
    by (simp add: prod_eq_iff)
  have g: "getAllFCDs ex_backend (fst (ex_three, [])) = (ex_three, ex_three)"
    by (simp add: ex_backend_def)
  have L: "ListVolumes ex_constants ex_backend \<lparr>StartingToken = [], MaxEntries = 0\<rparr> (ex_three, []) =
     (Return (Some \<lparr>Entries = map (ListVolumes_entry ex_constants ex_backend) ex_three,
                    NextToken = []\<rparr>) None, (ex_three, [Call_getAllFCDs ex_three]))"
    by (simp add: ListVolumes_unfold [OF g, of "[]" 0] slice_from_def)
  have 1: "\<exists>d dc datastoreName datastoreType diskID.
        Call_GetFirstClassDisk dc datastoreName datastoreType diskID FindFCDByName (Inr d)
          \<in> set [ex_zone_call, ex_get_call (Inr ex_vol1)]
        \<and> attributes_ok ex_constants d
            (VolumeContext (cv_Volume (CreateVolume_response ex_constants ex_zdi ex_vol1)))"
    using attribute_maps [OF K, of ex_backend ex_config "ex_request ''vol1'' 1" "([ex_vol1], [])"
        "CreateVolume_response ex_constants ex_zdi ex_vol1" None
        "([ex_vol1], [ex_zone_call, ex_get_call (Inr ex_vol1)])"] C
    by simp
  have 2: "\<exists>discoveryInfo.
        Call_WhichVCandDCByFCDId ''id-disk1'' (Inr discoveryInfo) \<in> set (snd (snd ?P))
        \<and> attributes_ok ex_constants (fdi_FCDInfo discoveryInfo)
            (PublishContext (the (returned (fst ?P))))"
    using attribute_maps [OF K, of ex_backend _ _ "(ex_three, [])" _ _ _
        "\<lparr>cp_VolumeId = ''id-disk1'', cp_NodeId = ''node1''\<rparr>"
        "the (returned (fst ?P))" None "snd ?P"] P
    by simp
  have 3: "\<exists>ds. set ds \<subseteq> set ex_three
        \<and> list_all2 (\<lambda>d v. attributes_ok ex_constants d (VolumeContext v)) ds
            (map (ListVolumes_entry ex_constants ex_backend) ex_three)"
    using attribute_maps [OF K, of ex_backend _ _ "(ex_three, [])" _ _ _ _ _ _ _
        "\<lparr>StartingToken = [], MaxEntries = 0\<rparr>"
        "\<lparr>Entries = map (ListVolumes_entry ex_constants ex_backend) ex_three, NextToken = []\<rparr>"
        None "(ex_three, [Call_getAllFCDs ex_three])"] L g
    by simp
  from K 1 2 3 show ?thesis by blast
qed

end
